theory Spec2Isabelle
  imports Complex_Main
begin

text \<open>
  A model of \<open>src/cockpit/samples.py\<close>: the samplers that read \<open>/proc\<close>, \<open>/sys/class/hwmon\<close>
  and \<open>/sys/fs/cgroup\<close> and write named metrics into the dictionary \<open>samples\<close>. Each
  \<open>sample\<close> method is a function of the file system and of the state it is called in; it
  returns the state it leaves and the exception it raises, if any.
\<close>

section \<open>Python text primitives used by the samplers\<close>

text \<open>
  A Python \<open>str\<close> is modelled as a \<open>string\<close>; every character is a code point below 256.
  The text of a file is the text that a text-mode \<open>read()\<close> returns.
\<close>

definition is_space :: "char \<Rightarrow> bool" where
  \<comment> \<open>\<open>str.isspace\<close> on one character: the white space that \<open>strip()\<close> and \<open>split()\<close> remove.\<close>
  "is_space c = (c \<in> set [CHR 0x09, CHR 0x0A, CHR 0x0B, CHR 0x0C, CHR 0x0D,
                            CHR 0x1C, CHR 0x1D, CHR 0x1E, CHR 0x1F, CHR 0x20, CHR 0x85, CHR 0xA0])"

definition is_decimal :: "char \<Rightarrow> bool" where
  \<comment> \<open>The characters \<open>int()\<close> reads as decimal digits.\<close>
  "is_decimal c = (c \<in> set ''0123456789'')"

definition isdigit :: "char \<Rightarrow> bool" where
  \<comment> \<open>\<open>str.isdigit\<close> on one character: the decimal digits and the superscripts 1, 2, 3.\<close>
  "isdigit c = (is_decimal c \<or> c \<in> set [CHR 0xB2, CHR 0xB3, CHR 0xB9])"

definition digit_val :: "char \<Rightarrow> nat" where
  "digit_val c = of_char c - 48"

definition strip_chars :: "string \<Rightarrow> string \<Rightarrow> string" where
  \<comment> \<open>\<open>s.strip(chars)\<close>\<close>
  "strip_chars chars s =
     rev (dropWhile (\<lambda>c. c \<in> set chars) (rev (dropWhile (\<lambda>c. c \<in> set chars) s)))"

definition strip :: "string \<Rightarrow> string" where
  \<comment> \<open>\<open>s.strip()\<close>\<close>
  "strip s = rev (dropWhile is_space (rev (dropWhile is_space s)))"

fun split_words :: "string \<Rightarrow> string \<Rightarrow> string list" where
  "split_words w [] = (if w = [] then [] else [w])"
| "split_words w (c # cs) =
     (if is_space c then (if w = [] then split_words [] cs else w # split_words [] cs)
      else split_words (w @ [c]) cs)"

definition str_split :: "string \<Rightarrow> string list" where
  \<comment> \<open>\<open>s.split()\<close>: the maximal runs of characters that are not white space.\<close>
  "str_split s = split_words [] s"

definition startswith :: "string \<Rightarrow> string \<Rightarrow> bool" where
  "startswith s p = (take (length p) s = p)"

fun read_lines :: "string \<Rightarrow> string \<Rightarrow> string list" where
  "read_lines l [] = (if l = [] then [] else [l])"
| "read_lines l (c # cs) =
     (if c = CHR 0x0A then (l @ [c]) # read_lines [] cs else read_lines (l @ [c]) cs)"

definition file_lines :: "string \<Rightarrow> string list" where
  \<comment> \<open>Iterating over an open text file: its lines, each with its line feed.\<close>
  "file_lines text = read_lines [] text"

fun int_digits :: "nat \<Rightarrow> string \<Rightarrow> nat option" where
  "int_digits acc [] = Some acc"
| "int_digits acc [c] = (if is_decimal c then Some (10 * acc + digit_val c) else None)"
| "int_digits acc (c # d # ds) =
     (if is_decimal c then int_digits (10 * acc + digit_val c) (d # ds)
      else if c = CHR ''_'' \<and> is_decimal d then int_digits (10 * acc + digit_val d) ds
      else None)"

definition int_unsigned :: "string \<Rightarrow> nat option" where
  \<comment> \<open>Decimal digits, where a single underscore may stand between two digits.\<close>
  "int_unsigned s =
     (case s of [] \<Rightarrow> None
      | c # cs \<Rightarrow> if is_decimal c then int_digits (digit_val c) cs else None)"

definition py_int :: "string \<Rightarrow> int option" where
  \<comment> \<open>\<open>int(s)\<close>; \<open>None\<close> is the \<open>ValueError\<close>.\<close>
  "py_int s =
     (case strip s of [] \<Rightarrow> None
      | c # cs \<Rightarrow>
          if c = CHR ''-'' then map_option (\<lambda>n. - int n) (int_unsigned cs)
          else if c = CHR ''+'' then map_option int (int_unsigned cs)
          else map_option int (int_unsigned (c # cs)))"

definition str_eq_int :: "string \<Rightarrow> int \<Rightarrow> bool" where
  \<comment> \<open>Python's \<open>==\<close> between a \<open>str\<close> and an \<open>int\<close>: the two never compare equal.\<close>
  "str_eq_int s n = False"

section \<open>Errors, the file system and the sample sink\<close>

datatype error = FileNotFoundError | ValueError | KeyError | TypeError | IndexError

datatype tree = Dir "(string \<times> tree) list"

record filesystem =
  files :: "string \<rightharpoonup> string"
  dirs :: "string \<rightharpoonup> tree"

text \<open>
  \<open>files\<close> gives the text of every regular file by its path, \<open>dirs\<close> the subdirectories
  (name and subtree, in listing order) below a directory path. Opening a path that is not
  in \<open>files\<close> raises \<open>FileNotFoundError\<close>.
\<close>

definition path_exists :: "filesystem \<Rightarrow> string \<Rightarrow> bool" where
  \<comment> \<open>\<open>os.path.exists\<close>\<close>
  "path_exists fs p = (\<not> (files fs p = None \<and> dirs fs p = None))"

datatype event = Open string | Exists string | Walk string

datatype val = Num rat | Inst "string \<rightharpoonup> rat"

text \<open>
  The state of one call of a sampling operation: \<open>samples\<close> is the dictionary the caller
  hands in, from a metric name to a number or to a dictionary from instance key to
  number; \<open>defaulting\<close> tells whether that dictionary is a
  \<open>collections.defaultdict(dict)\<close>, where reading an absent name inserts an empty
  dictionary, or a plain \<open>dict\<close>, where it raises \<open>KeyError\<close>; \<open>accesses\<close> lists the
  file system calls made so far, oldest first. Numbers are exact rationals: Python's
  \<open>int\<close> is embedded, and a \<open>float\<close> stands for the rational it approximates.
\<close>

record run =
  samples :: "string \<rightharpoonup> val"
  defaulting :: bool
  accesses :: "event list"

definition logged :: "event \<Rightarrow> run \<Rightarrow> run" where
  "logged e r = r\<lparr>accesses := accesses r @ [e]\<rparr>"

definition set_scalar :: "string \<Rightarrow> rat \<Rightarrow> run \<Rightarrow> run" where
  \<comment> \<open>\<open>samples[name] = v\<close>\<close>
  "set_scalar name v r = r\<lparr>samples := (samples r)(name \<mapsto> Num v)\<rparr>"

definition set_instance :: "string \<Rightarrow> string \<Rightarrow> rat \<Rightarrow> run \<Rightarrow> run \<times> error option" where
  \<comment> \<open>\<open>samples[name][key] = v\<close>\<close>
  "set_instance name key v r =
     (case samples r name of
        Some (Inst m) \<Rightarrow> (r\<lparr>samples := (samples r)(name \<mapsto> Inst (m(key \<mapsto> v)))\<rparr>, None)
      | Some (Num x) \<Rightarrow> (r, Some TypeError)
      | None \<Rightarrow>
          if defaulting r
          then (r\<lparr>samples := (samples r)(name \<mapsto> Inst [key \<mapsto> v])\<rparr>, None)
          else (r, Some KeyError))"

definition instance_value :: "run \<Rightarrow> string \<Rightarrow> string \<Rightarrow> rat option" where
  \<comment> \<open>\<open>samples[name][key]\<close> when both are there.\<close>
  "instance_value r name key =
     (case samples r name of Some (Inst m) \<Rightarrow> m key | Some (Num x) \<Rightarrow> None | None \<Rightarrow> None)"

definition accepts_instances :: "run \<Rightarrow> string \<Rightarrow> bool" where
  \<comment> \<open>Whether \<open>samples[name][key] = v\<close> can be carried out.\<close>
  "accepts_instances r name =
     (case samples r name of Some (Inst m) \<Rightarrow> True | Some (Num x) \<Rightarrow> False | None \<Rightarrow> defaulting r)"

definition instances :: "run \<Rightarrow> string \<Rightarrow> (string \<rightharpoonup> rat)" where
  \<comment> \<open>The dictionary that \<open>samples[name]\<close> yields where \<open>accepts_instances\<close> holds.\<close>
  "instances r name =
     (case samples r name of Some (Inst m) \<Rightarrow> m | Some (Num x) \<Rightarrow> Map.empty | None \<Rightarrow> Map.empty)"

definition put_instance :: "string \<Rightarrow> string \<Rightarrow> rat \<Rightarrow> run \<Rightarrow> run" where
  \<comment> \<open>The state after \<open>samples[name][key] = v\<close> where it is carried out.\<close>
  "put_instance name key v r =
     r\<lparr>samples := (samples r)(name \<mapsto> Inst ((instances r name)(key \<mapsto> v)))\<rparr>"

definition store_scalar :: "string \<Rightarrow> error + rat \<Rightarrow> run \<Rightarrow> run \<times> error option" where
  \<comment> \<open>\<open>samples[name] = rhs\<close>, where evaluating \<open>rhs\<close> may raise.\<close>
  "store_scalar name rhs r =
     (case rhs of Inl e \<Rightarrow> (r, Some e) | Inr v \<Rightarrow> (set_scalar name v r, None))"

definition store_instance :: "string \<Rightarrow> string \<Rightarrow> error + rat \<Rightarrow> run \<Rightarrow> run \<times> error option" where
  \<comment> \<open>\<open>samples[name][key] = rhs\<close>: the right-hand side is evaluated first.\<close>
  "store_instance name key rhs r =
     (case rhs of Inl e \<Rightarrow> (r, Some e) | Inr v \<Rightarrow> set_instance name key v r)"

fun run_all :: "(run \<Rightarrow> run \<times> error option) list \<Rightarrow> run \<Rightarrow> run \<times> error option" where
  \<comment> \<open>Statements in sequence: the first exception ends the sequence.\<close>
  "run_all [] r = (r, None)"
| "run_all (stmt # stmts) r =
     (case stmt r of (r', None) \<Rightarrow> run_all stmts r' | (r', Some e) \<Rightarrow> (r', Some e))"

section \<open>CPUSampler\<close>

definition MS_PER_JIFFY :: "int \<Rightarrow> rat" where
  \<comment> \<open>\<open>USER_HZ\<close> is what \<open>os.sysconf\<close> reports for \<open>SC_CLK_TCK\<close>.\<close>
  "MS_PER_JIFFY USER_HZ = 1000 / of_int (if USER_HZ > 0 then USER_HZ else 100)"

definition jiffies :: "int \<Rightarrow> string \<Rightarrow> error + rat" where
  \<comment> \<open>\<open>int(field) * MS_PER_JIFFY\<close>\<close>
  "jiffies USER_HZ field =
     (case py_int field of None \<Rightarrow> Inl ValueError
      | Some n \<Rightarrow> Inr (of_int n * MS_PER_JIFFY USER_HZ))"

definition cpu_line :: "int \<Rightarrow> string \<Rightarrow> run \<Rightarrow> run \<times> error option" where
  \<comment> \<open>One iteration of the loop over \<open>/proc/stat\<close>.\<close>
  "cpu_line USER_HZ line r =
     (if \<not> startswith line ''cpu'' then (r, None)
      else
        let fields = take 6 (str_split line) in
        if length fields < 6 then (r, Some ValueError)
        else
          let cpu = fields ! 0; user = fields ! 1; nice = fields ! 2;
              system = fields ! 3; iowait = fields ! 5;
              core = drop 3 cpu
          in
          if core \<noteq> [] then
            run_all
              [store_instance ''cpu.core.nice'' core (jiffies USER_HZ nice),
               store_instance ''cpu.core.user'' core (jiffies USER_HZ user),
               store_instance ''cpu.core.system'' core (jiffies USER_HZ system),
               store_instance ''cpu.core.iowait'' core (jiffies USER_HZ iowait)] r
          else
            run_all
              [store_scalar ''cpu.basic.nice'' (jiffies USER_HZ nice),
               store_scalar ''cpu.basic.user'' (jiffies USER_HZ user),
               store_scalar ''cpu.basic.system'' (jiffies USER_HZ system),
               store_scalar ''cpu.basic.iowait'' (jiffies USER_HZ iowait)] r)"

definition CPUSampler_sample :: "int \<Rightarrow> filesystem \<Rightarrow> run \<Rightarrow> run \<times> error option" where
  "CPUSampler_sample USER_HZ fs r =
     (let r1 = logged (Open ''/proc/stat'') r in
      case files fs ''/proc/stat'' of
        None \<Rightarrow> (r1, Some FileNotFoundError)
      | Some text \<Rightarrow> run_all (map (cpu_line USER_HZ) (file_lines text)) r1)"

section \<open>MemorySampler\<close>

definition split_colon :: "string \<Rightarrow> (string \<times> string) option" where
  \<comment> \<open>\<open>k, v = line.split(':', 1)\<close>; \<open>None\<close> when the line has no colon and the
      unpacking raises \<open>ValueError\<close>.\<close>
  "split_colon line =
     (if CHR '':'' \<in> set line
      then Some (takeWhile (\<lambda>c. c \<noteq> CHR '':'') line, tl (dropWhile (\<lambda>c. c \<noteq> CHR '':'') line))
      else None)"

fun meminfo_items :: "(string \<rightharpoonup> int) \<Rightarrow> string list \<Rightarrow> error + (string \<rightharpoonup> int)" where
  \<comment> \<open>The dictionary comprehension over the lines of \<open>/proc/meminfo\<close>.\<close>
  "meminfo_items items [] = Inr items"
| "meminfo_items items (line # rest) =
     (case split_colon line of None \<Rightarrow> Inl ValueError
      | Some (k, v) \<Rightarrow>
          (case py_int (strip_chars '' kB\<newline>'' v) of None \<Rightarrow> Inl ValueError
           | Some n \<Rightarrow> meminfo_items (items(k \<mapsto> n)) rest))"

definition item :: "(string \<rightharpoonup> int) \<Rightarrow> string \<Rightarrow> error + int" where
  \<comment> \<open>\<open>items[key]\<close>\<close>
  "item items key = (case items key of None \<Rightarrow> Inl KeyError | Some n \<Rightarrow> Inr n)"

definition arith2 :: "(int \<Rightarrow> int \<Rightarrow> int) \<Rightarrow> error + int \<Rightarrow> error + int \<Rightarrow> error + rat" where
  \<comment> \<open>\<open>1024 * (a op b)\<close>, the operands evaluated from left to right.\<close>
  "arith2 f a b =
     (case a of Inl e \<Rightarrow> Inl e
      | Inr x \<Rightarrow> (case b of Inl e \<Rightarrow> Inl e | Inr y \<Rightarrow> Inr (of_int (1024 * f x y))))"

definition MemorySampler_sample :: "filesystem \<Rightarrow> run \<Rightarrow> run \<times> error option" where
  "MemorySampler_sample fs r =
     (let r1 = logged (Open ''/proc/meminfo'') r in
      case files fs ''/proc/meminfo'' of
        None \<Rightarrow> (r1, Some FileNotFoundError)
      | Some text \<Rightarrow>
          (case meminfo_items Map.empty (file_lines text) of
             Inl e \<Rightarrow> (r1, Some e)
           | Inr items \<Rightarrow>
               run_all
                 [store_scalar ''memory.free''
                    (case item items ''MemFree'' of Inl e \<Rightarrow> Inl e | Inr x \<Rightarrow> Inr (of_int (1024 * x))),
                  store_scalar ''memory.used''
                    (arith2 (-) (item items ''MemTotal'') (item items ''MemAvailable'')),
                  store_scalar ''memory.cached''
                    (arith2 (+) (item items ''Buffers'') (item items ''Cached'')),
                  store_scalar ''memory.swap-used''
                    (arith2 (-) (item items ''SwapTotal'') (item items ''SwapFree''))] r1))"

definition required_keys :: "string list" where
  \<comment> \<open>The keys that \<open>MemorySampler.sample\<close> reads from the parsed dictionary.\<close>
  "required_keys =
     [''MemFree'', ''MemTotal'', ''MemAvailable'', ''Buffers'', ''Cached'', ''SwapTotal'', ''SwapFree'']"

section \<open>DiskSampler\<close>

record totals =
  bytes_read :: int
  bytes_written :: int
  num_ops :: int

definition disk_line :: "totals \<Rightarrow> string \<Rightarrow> error + totals" where
  \<comment> \<open>One iteration of the loop over \<open>/proc/diskstats\<close>.\<close>
  "disk_line t line =
     (let fields = str_split (strip line) in
      if length fields < 10 then Inl ValueError
      else
        let dev_major = fields ! 0; dev_name = fields ! 2;
            num_reads_merged = fields ! 4; num_sectors_read = fields ! 5;
            num_writes_merged = fields ! 8; num_sectors_written = fields ! 9
        in
        if str_eq_int dev_major 253 \<or> str_eq_int dev_major 9 then Inr t
        else if take 2 dev_name \<in> set [''sd'', ''hd'', ''vd''] \<and> isdigit (last dev_name) then Inr t
        else if startswith dev_name ''nvme'' \<and> CHR ''p'' \<in> set dev_name then Inr t
        else
          (case py_int num_sectors_read of None \<Rightarrow> Inl ValueError
           | Some sr \<Rightarrow>
          (case py_int num_sectors_written of None \<Rightarrow> Inl ValueError
           | Some sw \<Rightarrow>
          (case py_int num_reads_merged of None \<Rightarrow> Inl ValueError
           | Some rm \<Rightarrow>
          (case py_int num_writes_merged of None \<Rightarrow> Inl ValueError
           | Some wm \<Rightarrow>
              Inr (t\<lparr>bytes_read := bytes_read t + sr * 512,
                      bytes_written := bytes_written t + sw * 512,
                      num_ops := num_ops t + (rm + wm)\<rparr>))))))"

fun disk_lines :: "totals \<Rightarrow> string list \<Rightarrow> error + totals" where
  "disk_lines t [] = Inr t"
| "disk_lines t (line # rest) =
     (case disk_line t line of Inl e \<Rightarrow> Inl e | Inr t' \<Rightarrow> disk_lines t' rest)"

definition DiskSampler_sample :: "filesystem \<Rightarrow> run \<Rightarrow> run \<times> error option" where
  "DiskSampler_sample fs r =
     (let r1 = logged (Open ''/proc/diskstats'') r in
      case files fs ''/proc/diskstats'' of
        None \<Rightarrow> (r1, Some FileNotFoundError)
      | Some text \<Rightarrow>
          (case disk_lines \<lparr>bytes_read = 0, bytes_written = 0, num_ops = 0\<rparr> (file_lines text) of
             Inl e \<Rightarrow> (r1, Some e)
           | Inr t \<Rightarrow>
               (set_scalar ''disk.all.ops'' (of_int (num_ops t))
                 (set_scalar ''disk.all.written'' (of_int (bytes_written t))
                   (set_scalar ''disk.all.read'' (of_int (bytes_read t)) r1)), None)))"

section \<open>CPUTemperatureSampler\<close>

function str_nat :: "nat \<Rightarrow> string" where
  \<comment> \<open>How an f-string formats a non-negative integer.\<close>
  "str_nat n =
     (if n < 10 then [''0123456789'' ! n]
      else str_nat (n div 10) @ [''0123456789'' ! (n mod 10)])"
  by pat_completeness auto
termination
  by (relation "measure (\<lambda>n. n)") auto

declare str_nat.simps [simp del]

definition hwmon_file :: "nat \<Rightarrow> string \<Rightarrow> string" where
  \<comment> \<open>\<open>f'/sys/class/hwmon/hwmon{hwmonid}/{leaf}'\<close>\<close>
  "hwmon_file hwmonid leaf = ''/sys/class/hwmon/hwmon'' @ str_nat hwmonid @ ''/'' @ leaf"

definition temp_file :: "nat \<Rightarrow> nat \<Rightarrow> string \<Rightarrow> string" where
  \<comment> \<open>\<open>f'/sys/class/hwmon/hwmon{hwmonid}/temp{index}_{kind}'\<close>\<close>
  "temp_file hwmonid index kind = hwmon_file hwmonid (''temp'' @ str_nat index @ ''_'' @ kind)"

definition sensor_wanted :: "string \<Rightarrow> string \<Rightarrow> bool" where
  \<comment> \<open>The body of the loop of \<open>detect_cpu_sensors\<close> between reading the label and
      appending the path: \<open>False\<close> where the source says \<open>continue\<close>.\<close>
  "sensor_wanted name label =
     (if label \<noteq> [] then
        (if label \<noteq> ''CPU Temperature'' \<and> name = ''atk0110'' then False
         else if label = ''Tctl'' then False
         else True)
      else
        (if name \<noteq> ''cpu_thermal'' then False else True))"

text \<open>
  The sampler's own state is the list \<open>sensors\<close>; it outlives the call, also when the call
  ends in an exception. \<open>detect_from\<close> is the loop of \<open>detect_cpu_sensors\<close>, started at
  \<open>index\<close>.
\<close>

function detect_from ::
  "filesystem \<Rightarrow> nat \<Rightarrow> string \<Rightarrow> nat \<Rightarrow> string list \<times> run \<Rightarrow> (string list \<times> run) \<times> error option"
where
  "detect_from fs hwmonid name index (sensors, r) =
     (if index < 2 ^ 32 then
        let sensor_path = temp_file hwmonid index ''input'';
            r1 = logged (Exists sensor_path) r
        in
        if \<not> path_exists fs sensor_path then ((sensors, r1), None)
        else
          let label_path = temp_file hwmonid index ''label'';
              r2 = logged (Open label_path) r1
          in
          (case files fs label_path of
             None \<Rightarrow> ((sensors, r2), Some FileNotFoundError)
           | Some text \<Rightarrow>
               detect_from fs hwmonid name (index + 1)
                 (if sensor_wanted name (strip text) then sensors @ [sensor_path] else sensors, r2))
      else ((sensors, r), None))"
  by pat_completeness auto
termination
  by (relation "measure (\<lambda>(fs, hwmonid, name, index, s). 2 ^ 32 - index)") auto

declare detect_from.simps [simp del]

definition detect_cpu_sensors ::
  "filesystem \<Rightarrow> nat \<Rightarrow> string \<Rightarrow> string list \<times> run \<Rightarrow> (string list \<times> run) \<times> error option"
where
  "detect_cpu_sensors fs hwmonid name s = detect_from fs hwmonid name 1 s"

definition cpu_names :: "string list" where
  "cpu_names = [''coretemp'', ''cpu_thermal'', ''k8temp'', ''k10temp'', ''atk0110'']"

function discover_from ::
  "filesystem \<Rightarrow> nat \<Rightarrow> string list \<times> run \<Rightarrow> (string list \<times> run) \<times> error option"
where
  \<comment> \<open>The loop over the hwmon devices in \<open>sample\<close>, started at \<open>index\<close>.\<close>
  "discover_from fs index (sensors, r) =
     (if index < 2 ^ 32 then
        let name_path = hwmon_file index ''name'';
            r1 = logged (Open name_path) r
        in
        (case files fs name_path of
           None \<Rightarrow> ((sensors, r1), None)
         | Some text \<Rightarrow>
             let name = strip text in
             if name \<in> set cpu_names then
               (case detect_cpu_sensors fs index name (sensors, r1) of
                  (s, None) \<Rightarrow> discover_from fs (index + 1) s
                | (s, Some e) \<Rightarrow> if e = FileNotFoundError then (s, None) else (s, Some e))
             else discover_from fs (index + 1) (sensors, r1))
      else ((sensors, r), None))"
  by pat_completeness auto
termination
  by (relation "measure (\<lambda>(fs, index, s). 2 ^ 32 - index)") auto

declare discover_from.simps [simp del]

fun read_sensors :: "filesystem \<Rightarrow> string list \<Rightarrow> run \<Rightarrow> run \<times> error option" where
  \<comment> \<open>The loop over \<open>self.sensors\<close>; \<open>return\<close> and the end of the list both end the call.\<close>
  "read_sensors fs [] r = (r, None)"
| "read_sensors fs (sensor_path # rest) r =
     (let r1 = logged (Open sensor_path) r in
      case files fs sensor_path of
        None \<Rightarrow> (r1, Some FileNotFoundError)
      | Some text \<Rightarrow>
          (case py_int (strip text) of
             None \<Rightarrow> (r1, Some ValueError)
           | Some temperature \<Rightarrow>
               if temperature = 0 then (r1, None)
               else
                 (case set_instance ''cpu.temperature'' sensor_path (of_int temperature / 1000) r1 of
                    (r2, None) \<Rightarrow> read_sensors fs rest r2
                  | (r2, Some e) \<Rightarrow> (r2, Some e))))"

definition CPUTemperatureSampler_sample ::
  "filesystem \<Rightarrow> string list \<Rightarrow> run \<Rightarrow> (string list \<times> run) \<times> error option"
where
  "CPUTemperatureSampler_sample fs sensors r =
     (case (if sensors = [] then discover_from fs 0 (sensors, r) else ((sensors, r), None)) of
        ((sensors', r1), Some e) \<Rightarrow> ((sensors', r1), Some e)
      | ((sensors', r1), None) \<Rightarrow>
          (case read_sensors fs sensors' r1 of (r2, e) \<Rightarrow> ((sensors', r2), e)))"

fun sample_passes ::
  "(filesystem \<times> run) list \<Rightarrow> string list \<Rightarrow>
     (string list \<times> (string list \<times> run) \<times> error option) list"
where
  \<comment> \<open>Successive calls of \<open>sample\<close> on one sampler: each pass has its own file system state
      and sink, and starts from the sensor list the pass before left. Each pass is
      reported as the sensor list it started from and the result of the call.\<close>
  "sample_passes [] sensors = []"
| "sample_passes ((fs, r) # later) sensors =
     (let res = CPUTemperatureSampler_sample fs sensors r
      in (sensors, res) # sample_passes later (fst (fst res)))"

definition sensor_reading :: "filesystem \<Rightarrow> string \<Rightarrow> int option" where
  \<comment> \<open>\<open>int(sensor.read().strip())\<close> for the file at \<open>sensor_path\<close>, where it can be opened
      and holds an integer.\<close>
  "sensor_reading fs sensor_path =
     (case files fs sensor_path of None \<Rightarrow> None | Some content \<Rightarrow> py_int (strip content))"

definition inclusion_rule :: "string \<Rightarrow> string \<Rightarrow> bool" where
  \<comment> \<open>The inclusion rule in the words of the specification, to compare \<open>sensor_wanted\<close>
      with: a sensor with a label is included unless the device is \<open>atk0110\<close> and the
      label is not \<open>CPU Temperature\<close>, or the label is \<open>Tctl\<close>; a sensor without a label is
      included only when the device is \<open>cpu_thermal\<close>.\<close>
  "inclusion_rule name label =
     (if label \<noteq> [] then
        \<not> ((name = ''atk0110'' \<and> label \<noteq> ''CPU Temperature'') \<or> label = ''Tctl'')
      else name = ''cpu_thermal'')"

section \<open>CGroupSampler\<close>

definition cgroups_v2_path :: string where
  "cgroups_v2_path = ''/sys/fs/cgroup/''"

definition path_join :: "string \<Rightarrow> string \<Rightarrow> string" where
  \<comment> \<open>\<open>os.path.join(a, b)\<close>\<close>
  "path_join a b =
     (if startswith b ''/'' then b
      else if a = [] then b
      else if last a = CHR ''/'' then a @ b
      else a @ ''/'' @ b)"

function str_replace :: "string \<Rightarrow> string \<Rightarrow> string \<Rightarrow> string" where
  \<comment> \<open>\<open>s.replace(old, new)\<close>: every occurrence, from the left, without overlap.\<close>
  "str_replace s old new =
     (if old = [] then new @ concat (map (\<lambda>c. c # new) s)
      else if s = [] then []
      else if startswith s old then new @ str_replace (drop (length old) s) old new
      else hd s # str_replace (tl s) old new)"
  by pat_completeness auto
termination
  by (relation "measure (\<lambda>(s, old, new). length s)") auto

declare str_replace.simps [simp del]

fun walk :: "string \<Rightarrow> tree \<Rightarrow> string list"
  and walk_subdirs :: "string \<Rightarrow> (string \<times> tree) list \<Rightarrow> string list"
where
  "walk dirpath (Dir subdirs) = dirpath # walk_subdirs dirpath subdirs"
| "walk_subdirs dirpath [] = []"
| "walk_subdirs dirpath ((name, t) # rest) =
     walk (path_join dirpath name) t @ walk_subdirs dirpath rest"

definition os_walk :: "filesystem \<Rightarrow> string \<Rightarrow> string list" where
  \<comment> \<open>The directory paths that \<open>os.walk(dirpath)\<close> yields, parents first, in order; none
      when \<open>dirpath\<close> is not a directory.\<close>
  "os_walk fs dirpath = (case dirs fs dirpath of None \<Rightarrow> [] | Some t \<Rightarrow> walk dirpath t)"

definition keyed_line :: "int \<Rightarrow> string \<Rightarrow> string \<Rightarrow> string \<Rightarrow> string \<Rightarrow> run \<Rightarrow> run \<times> error option" where
  \<comment> \<open>One iteration of the loop of \<open>read_cgroup_keyed_stat\<close>; \<open>maxsize\<close> is \<open>sys.maxsize\<close>.\<close>
  "keyed_line maxsize cgroup name key line r =
     (if \<not> startswith line key then (r, None)
      else
        (case str_split line of
           [] \<Rightarrow> (r, Some IndexError)
         | w # ws \<Rightarrow>
             (case py_int (last (w # ws)) of
                None \<Rightarrow> (r, Some ValueError)
              | Some v \<Rightarrow>
                  if maxsize > v \<and> v > 0 then set_instance name cgroup (of_int v / 1000) r
                  else (r, None))))"

definition read_cgroup_keyed_stat ::
  "filesystem \<Rightarrow> int \<Rightarrow> string \<Rightarrow> string \<Rightarrow> string \<Rightarrow> string \<Rightarrow> run \<Rightarrow> run \<times> error option"
where
  "read_cgroup_keyed_stat fs maxsize path cgroup name key r =
     (let r1 = logged (Open path) r in
      case files fs path of
        None \<Rightarrow> (r1, Some FileNotFoundError)
      | Some text \<Rightarrow> run_all (map (keyed_line maxsize cgroup name key) (file_lines text)) r1)"

definition read_cgroup_integer_stat ::
  "filesystem \<Rightarrow> int \<Rightarrow> string \<Rightarrow> string \<Rightarrow> string \<Rightarrow> run \<Rightarrow> run \<times> error option"
where
  "read_cgroup_integer_stat fs maxsize path cgroup name r =
     (let r1 = logged (Open path) r in
      case files fs path of
        None \<Rightarrow> (r1, None)
      | Some text \<Rightarrow>
          (case py_int (strip text) of
             None \<Rightarrow> (r1, None)
           | Some v \<Rightarrow>
               if maxsize > v \<and> v > 0 then set_instance name cgroup (of_int v) r1
               else (r1, None)))"

definition sample_cgroup :: "filesystem \<Rightarrow> int \<Rightarrow> string \<Rightarrow> run \<Rightarrow> run \<times> error option" where
  \<comment> \<open>One iteration of the loop over \<open>os.walk\<close>.\<close>
  "sample_cgroup fs maxsize path r =
     (let cgroup = str_replace path cgroups_v2_path [] in
      if cgroup = [] then (r, None)
      else
        run_all
          [read_cgroup_integer_stat fs maxsize (path_join path ''memory.current'') cgroup ''cgroup.memory.usage'',
           read_cgroup_integer_stat fs maxsize (path_join path ''memory.max'') cgroup ''cgroup.memory.limit'',
           read_cgroup_integer_stat fs maxsize (path_join path ''memory.swap.current'') cgroup ''cgroup.memory.sw-usage'',
           read_cgroup_integer_stat fs maxsize (path_join path ''memory.swap.max'') cgroup ''cgroup.memory.sw-limit'',
           read_cgroup_integer_stat fs maxsize (path_join path ''cpu.weight'') cgroup ''cgroup.cpu.shares'',
           read_cgroup_keyed_stat fs maxsize (path_join path ''cpu.stat'') cgroup ''cgroup.cpu.usage'' ''usage_usec''] r)"

definition CGroupSampler_sample ::
  "filesystem \<Rightarrow> int \<Rightarrow> bool option \<Rightarrow> run \<Rightarrow> bool option \<times> run \<times> error option"
where
  \<comment> \<open>The sampler's own state is \<open>cgroups_v2\<close>, \<open>None\<close> until the first call.\<close>
  "CGroupSampler_sample fs maxsize cgroups_v2 r =
     (let (cgroups_v2', r1) =
            (case cgroups_v2 of
               None \<Rightarrow> (Some (path_exists fs ''/sys/fs/cgroup/cgroup.controllers''),
                         logged (Exists ''/sys/fs/cgroup/cgroup.controllers'') r)
             | Some b \<Rightarrow> (Some b, r))
      in
      if cgroups_v2_path \<noteq> [] then
        (cgroups_v2',
         run_all (map (sample_cgroup fs maxsize) (os_walk fs cgroups_v2_path))
           (logged (Walk cgroups_v2_path) r1))
      else (cgroups_v2', r1, None))"

text \<open>
  The words in which the properties of \<open>sample\<close> below are stated.
\<close>

definition stat_files :: "(string \<times> string) list" where
  \<comment> \<open>The six files that \<open>sample\<close> reads for a cgroup, each with the metric it feeds, in
      the order of the calls.\<close>
  "stat_files =
     [(''memory.current'', ''cgroup.memory.usage''),
      (''memory.max'', ''cgroup.memory.limit''),
      (''memory.swap.current'', ''cgroup.memory.sw-usage''),
      (''memory.swap.max'', ''cgroup.memory.sw-limit''),
      (''cpu.weight'', ''cgroup.cpu.shares''),
      (''cpu.stat'', ''cgroup.cpu.usage'')]"

definition out_of_range :: "int \<Rightarrow> string \<Rightarrow> bool" where
  \<comment> \<open>The text is an integer outside the open interval from 0 to \<open>sys.maxsize\<close>.\<close>
  "out_of_range maxsize s =
     (case py_int s of None \<Rightarrow> False | Some v \<Rightarrow> \<not> (maxsize > v \<and> v > 0))"

definition yields_nothing :: "int \<Rightarrow> string \<Rightarrow> string \<Rightarrow> bool" where
  \<comment> \<open>A content of the stat file \<open>leaf\<close> that gives no value: for a file read as one
      integer, text that \<open>int()\<close> rejects or an integer outside the interval; for
      \<open>cpu.stat\<close>, every line under \<open>usage_usec\<close> ends in an integer outside the interval.\<close>
  "yields_nothing maxsize leaf content =
     (if leaf = ''cpu.stat''
      then list_all
             (\<lambda>line. if startswith line ''usage_usec''
                then (case str_split line of [] \<Rightarrow> False
                      | w # ws \<Rightarrow> out_of_range maxsize (last (w # ws)))
                else True)
             (file_lines content)
      else py_int (strip content) = None \<or> out_of_range maxsize (strip content))"

definition skip_file :: "string \<Rightarrow> run \<Rightarrow> run \<times> error option" where
  \<comment> \<open>A read that takes no value: the file is opened, the sink stays as it is and nothing
      is raised.\<close>
  "skip_file path r = (logged (Open path) r, None)"

definition cgroup_reads ::
  "filesystem \<Rightarrow> int \<Rightarrow> string \<Rightarrow> string \<Rightarrow> string \<Rightarrow> (run \<Rightarrow> run \<times> error option) list"
where
  \<comment> \<open>The six reads of \<open>sample\<close> for the cgroup at \<open>path\<close>, in order, where the read of the
      file \<open>skipped\<close> only opens it.\<close>
  "cgroup_reads fs maxsize path cgroup skipped =
     map (\<lambda>(leaf, name).
            if leaf = skipped then skip_file (path_join path leaf)
            else if leaf = ''cpu.stat''
            then read_cgroup_keyed_stat fs maxsize (path_join path leaf) cgroup name ''usage_usec''
            else read_cgroup_integer_stat fs maxsize (path_join path leaf) cgroup name)
       stat_files"

definition exists_calls :: "run \<Rightarrow> string list" where
  \<comment> \<open>The paths handed to \<open>os.path.exists\<close> so far.\<close>
  "exists_calls r = concat (map (\<lambda>e. case e of Exists p \<Rightarrow> [p] | Open p \<Rightarrow> [] | Walk p \<Rightarrow> []) (accesses r))"

section \<open>Evaluation and the sink\<close>

lemmas text_defs = is_space_def is_decimal_def isdigit_def digit_val_def strip_chars_def strip_def
  str_split_def startswith_def file_lines_def int_unsigned_def py_int_def

lemma set_instance_accepted:
  "accepts_instances r name \<Longrightarrow> set_instance name key v r = (put_instance name key v r, None)"
  by (auto simp add: accepts_instances_def set_instance_def put_instance_def instances_def
      split: option.splits val.splits)

lemma set_instance_accesses: "accesses (fst (set_instance name key v r)) = accesses r"
  by (simp add: set_instance_def split: option.splits val.splits)

lemma instance_value_put:
  "instance_value (put_instance name key v r) name' key' =
     (if name' = name \<and> key' = key then Some v else instance_value r name' key')"
  by (auto simp add: instance_value_def put_instance_def instances_def
      split: option.splits val.splits)

lemma accepts_put:
  "accepts_instances (put_instance name key v r) name' =
     (name' = name \<or> accepts_instances r name')"
  by (auto simp add: accepts_instances_def put_instance_def split: option.splits val.splits)

lemma accesses_put: "accesses (put_instance name key v r) = accesses r"
  by (simp add: put_instance_def)

lemma accepts_logged: "accepts_instances (logged e r) name = accepts_instances r name"
  by (simp add: accepts_instances_def logged_def split: option.splits)

lemma instance_value_logged: "instance_value (logged e r) name key = instance_value r name key"
  by (simp add: instance_value_def logged_def)

lemma accesses_logged: "accesses (logged e r) = accesses r @ [e]"
  by (simp add: logged_def)

section \<open>Properties of CPUSampler\<close>

text \<open>
  C2. With \<open>USER_HZ\<close> = 100 and the line \<open>cpu0 100 10 50 0 20\<close> in \<open>/proc/stat\<close>, the call
  writes, for the core \<open>0\<close>, \<open>cpu.core.user\<close> = 1000, \<open>cpu.core.nice\<close> = 100,
  \<open>cpu.core.system\<close> = 500 and \<open>cpu.core.iowait\<close> = 200 and raises nothing, given a sink
  that takes instances under these four names. (In Python the four values are the floats
  1000.0, 100.0, 500.0 and 200.0: 1000 / 100 and the four products are exact.)
\<close>

theorem CPUSampler_core_example:
  assumes "accepts_instances r ''cpu.core.nice''"
    and "accepts_instances r ''cpu.core.user''"
    and "accepts_instances r ''cpu.core.system''"
    and "accepts_instances r ''cpu.core.iowait''"
    and "res = CPUSampler_sample 100
           (fs\<lparr>files := (files fs)(''/proc/stat'' \<mapsto> ''cpu0 100 10 50 0 20\<newline>'')\<rparr>) r"
  shows "snd res = None \<and>
         instance_value (fst res) ''cpu.core.user'' ''0'' = Some 1000 \<and>
         instance_value (fst res) ''cpu.core.nice'' ''0'' = Some 100 \<and>
         instance_value (fst res) ''cpu.core.system'' ''0'' = Some 500 \<and>
         instance_value (fst res) ''cpu.core.iowait'' ''0'' = Some 200"
  unfolding assms(5) using assms(1-4)
  by (simp add: CPUSampler_sample_def cpu_line_def jiffies_def MS_PER_JIFFY_def text_defs Let_def
      store_instance_def set_instance_accepted accepts_put accepts_logged
      instance_value_put instance_value_logged)

theorem CPUSampler_core_example_witness:
  "snd (CPUSampler_sample 100
          \<lparr>files = [''/proc/stat'' \<mapsto> ''cpu0 100 10 50 0 20\<newline>''], dirs = Map.empty\<rparr>
          \<lparr>samples = Map.empty, defaulting = True, accesses = []\<rparr>) = None \<and>
   instance_value (fst (CPUSampler_sample 100
          \<lparr>files = [''/proc/stat'' \<mapsto> ''cpu0 100 10 50 0 20\<newline>''], dirs = Map.empty\<rparr>
          \<lparr>samples = Map.empty, defaulting = True, accesses = []\<rparr>))
     ''cpu.core.user'' ''0'' = Some 1000 \<and>
   instance_value (fst (CPUSampler_sample 100
          \<lparr>files = [''/proc/stat'' \<mapsto> ''cpu0 100 10 50 0 20\<newline>''], dirs = Map.empty\<rparr>
          \<lparr>samples = Map.empty, defaulting = True, accesses = []\<rparr>))
     ''cpu.core.iowait'' ''0'' = Some 200"
proof -
  let ?r = "\<lparr>samples = Map.empty, defaulting = True, accesses = []\<rparr>"
  let ?fs = "\<lparr>files = Map.empty, dirs = Map.empty\<rparr>"
  have a: "accepts_instances ?r name" for name
    by (simp add: accepts_instances_def)
  have fs: "?fs\<lparr>files := (files ?fs)(''/proc/stat'' \<mapsto> ''cpu0 100 10 50 0 20\<newline>'')\<rparr> =
      \<lparr>files = [''/proc/stat'' \<mapsto> ''cpu0 100 10 50 0 20\<newline>''], dirs = Map.empty\<rparr>"
    by simp
  show ?thesis
    using CPUSampler_core_example [OF a a a a refl, of ?fs] unfolding fs by blast
qed

section \<open>Properties of DiskSampler\<close>

text \<open>
  C1 (the code departs from it). A line of \<open>/proc/diskstats\<close> for device major 253 is meant
  to add nothing to the three totals. \<open>dev_major\<close> is a field of the split line, a \<open>str\<close>,
  and it is compared with the numbers 253 and 9, so the test never holds: the line below,
  for the device-mapper device \<open>dm-0\<close>, adds its 200 sectors read, its 300 sectors written
  and its 5 + 7 merged operations to the totals.
\<close>

theorem DiskSampler_counts_device_mapper:
  "DiskSampler_sample
     (fs\<lparr>files := (files fs)(''/proc/diskstats'' \<mapsto>
        '' 253       0 dm-0 10 5 200 0 0 7 300 0 0 0 0\<newline>'')\<rparr>) r =
   (set_scalar ''disk.all.ops'' 12
     (set_scalar ''disk.all.written'' 153600
       (set_scalar ''disk.all.read'' 102400 (logged (Open ''/proc/diskstats'') r))), None)"
  by (simp add: DiskSampler_sample_def disk_line_def str_eq_int_def text_defs)

text \<open>The lines of a partition and of a whole disk, for comparison.\<close>

lemma disk_line_partition_excluded:
  "disk_line t ''   8       1 sda1 10 5 200 0 0 7 300 0 0 0 0\<newline>'' = Inr t"
  by (simp add: disk_line_def str_eq_int_def text_defs)

lemma disk_line_whole_disk_included:
  "disk_line t ''   8       0 sda 10 5 200 0 0 7 300 0 0 0 0\<newline>'' =
     Inr (t\<lparr>bytes_read := bytes_read t + 102400,
             bytes_written := bytes_written t + 153600,
             num_ops := num_ops t + 12\<rparr>)"
  by (simp add: disk_line_def str_eq_int_def text_defs)

section \<open>Properties of MemorySampler\<close>

text \<open>
  C3. With \<open>MemTotal\<close> 1000, \<open>MemFree\<close> 200, \<open>MemAvailable\<close> 300, \<open>Buffers\<close> 50, \<open>Cached\<close> 50,
  \<open>SwapTotal\<close> 100 and \<open>SwapFree\<close> 40 kB in \<open>/proc/meminfo\<close>, the call raises nothing, and
  afterwards the sink holds the numbers \<open>memory.free\<close> = 204800, \<open>memory.used\<close> = 716800,
  \<open>memory.cached\<close> = 102400 and \<open>memory.swap-used\<close> = 61440.
\<close>

theorem MemorySampler_sample_example:
  assumes "res = MemorySampler_sample
     (fs\<lparr>files := (files fs)(''/proc/meminfo'' \<mapsto>
        ''MemTotal: 1000 kB\<newline>MemFree: 200 kB\<newline>MemAvailable: 300 kB\<newline>Buffers: 50 kB\<newline>Cached: 50 kB\<newline>SwapTotal: 100 kB\<newline>SwapFree: 40 kB\<newline>'')\<rparr>) r"
  shows "snd res = None \<and>
         samples (fst res) ''memory.free'' = Some (Num 204800) \<and>
         samples (fst res) ''memory.used'' = Some (Num 716800) \<and>
         samples (fst res) ''memory.cached'' = Some (Num 102400) \<and>
         samples (fst res) ''memory.swap-used'' = Some (Num 61440)"
  unfolding assms
  by (simp add: MemorySampler_sample_def split_colon_def item_def arith2_def store_scalar_def
      set_scalar_def logged_def text_defs)

theorem MemorySampler_sample_example_witness:
  "snd (MemorySampler_sample
      \<lparr>files = [''/proc/meminfo'' \<mapsto>
         ''MemTotal: 1000 kB\<newline>MemFree: 200 kB\<newline>MemAvailable: 300 kB\<newline>Buffers: 50 kB\<newline>Cached: 50 kB\<newline>SwapTotal: 100 kB\<newline>SwapFree: 40 kB\<newline>''],
       dirs = Map.empty\<rparr>
      \<lparr>samples = Map.empty, defaulting = False, accesses = []\<rparr>) = None \<and>
   samples (fst (MemorySampler_sample
      \<lparr>files = [''/proc/meminfo'' \<mapsto>
         ''MemTotal: 1000 kB\<newline>MemFree: 200 kB\<newline>MemAvailable: 300 kB\<newline>Buffers: 50 kB\<newline>Cached: 50 kB\<newline>SwapTotal: 100 kB\<newline>SwapFree: 40 kB\<newline>''],
       dirs = Map.empty\<rparr>
      \<lparr>samples = Map.empty, defaulting = False, accesses = []\<rparr>)) ''memory.used'' =
     Some (Num 716800)"
proof -
  let ?fs = "\<lparr>files = Map.empty, dirs = Map.empty\<rparr>"
  let ?content = "''MemTotal: 1000 kB\<newline>MemFree: 200 kB\<newline>MemAvailable: 300 kB\<newline>Buffers: 50 kB\<newline>Cached: 50 kB\<newline>SwapTotal: 100 kB\<newline>SwapFree: 40 kB\<newline>''"
  have fs: "?fs\<lparr>files := (files ?fs)(''/proc/meminfo'' \<mapsto> ?content)\<rparr> =
      \<lparr>files = [''/proc/meminfo'' \<mapsto> ?content], dirs = Map.empty\<rparr>"
    by simp
  show ?thesis
    using MemorySampler_sample_example [OF refl, of ?fs] unfolding fs by blast
qed

text \<open>
  C4. When \<open>/proc/meminfo\<close> parses to a dictionary that lacks one of the keys
  \<open>MemFree\<close>, \<open>MemTotal\<close>, \<open>MemAvailable\<close>, \<open>Buffers\<close>, \<open>Cached\<close>, \<open>SwapTotal\<close>, \<open>SwapFree\<close>,
  the call ends in a \<open>KeyError\<close>.
\<close>

theorem MemorySampler_missing_key_raises:
  assumes "files fs ''/proc/meminfo'' = Some text"
    and "meminfo_items Map.empty (file_lines text) = Inr items"
    and "k \<in> set required_keys"
    and "items k = None"
  shows "snd (MemorySampler_sample fs r) = Some KeyError"
  using assms
  by (auto simp add: MemorySampler_sample_def required_keys_def item_def arith2_def
      store_scalar_def split: option.splits sum.splits)

theorem MemorySampler_missing_key_raises_witness:
  "snd (MemorySampler_sample
     \<lparr>files = [''/proc/meminfo'' \<mapsto> ''MemTotal: 1000 kB\<newline>MemFree: 200 kB\<newline>''], dirs = Map.empty\<rparr>
     \<lparr>samples = Map.empty, defaulting = True, accesses = []\<rparr>) = Some KeyError"
proof -
  let ?text = "''MemTotal: 1000 kB\<newline>MemFree: 200 kB\<newline>''"
  let ?fs = "\<lparr>files = [''/proc/meminfo'' \<mapsto> ?text], dirs = Map.empty\<rparr>"
  have f: "files ?fs ''/proc/meminfo'' = Some ?text"
    by simp
  have p: "meminfo_items Map.empty (file_lines ?text) =
      Inr [''MemTotal'' \<mapsto> 1000, ''MemFree'' \<mapsto> 200]"
    by (simp add: split_colon_def text_defs)
  have k: "''MemAvailable'' \<in> set required_keys"
    by (simp add: required_keys_def)
  have a: "[''MemTotal'' \<mapsto> 1000, ''MemFree'' \<mapsto> (200::int)] ''MemAvailable'' = None"
    by simp
  show ?thesis
    by (rule MemorySampler_missing_key_raises [OF f p k a])
qed

section \<open>Properties of CGroupSampler\<close>

lemmas cgroup_defs = CGroupSampler_sample_def os_walk_def cgroups_v2_path_def sample_cgroup_def
  path_join_def str_replace.simps read_cgroup_integer_stat_def read_cgroup_keyed_stat_def
  keyed_line_def path_exists_def logged_def Let_def

lemma run_all_exists_calls:
  "(\<And>stmt r. stmt \<in> set stmts \<Longrightarrow> exists_calls (fst (stmt r)) = exists_calls r) \<Longrightarrow>
     exists_calls (fst (run_all stmts r)) = exists_calls r"
proof (induction stmts arbitrary: r)
  case Nil
  then show ?case by simp
next
  case (Cons stmt stmts)
  obtain r' e where s: "stmt r = (r', e)" by (cases "stmt r")
  have r': "exists_calls r' = exists_calls r"
    using Cons.prems [of stmt r] s by simp
  show ?case
  proof (cases e)
    case None
    then show ?thesis using s r' Cons.IH [of r'] Cons.prems by simp
  next
    case (Some a)
    then show ?thesis using s r' by simp
  qed
qed

lemma exists_calls_set_instance:
  "exists_calls (fst (set_instance name key v r)) = exists_calls r"
  by (simp add: exists_calls_def set_instance_accesses)

lemma exists_calls_open: "exists_calls (logged (Open p) r) = exists_calls r"
  by (simp add: exists_calls_def logged_def)

lemma exists_calls_walk: "exists_calls (logged (Walk p) r) = exists_calls r"
  by (simp add: exists_calls_def logged_def)

lemma exists_calls_integer_stat:
  "exists_calls (fst (read_cgroup_integer_stat fs maxsize path cgroup name r)) = exists_calls r"
  by (simp add: read_cgroup_integer_stat_def Let_def exists_calls_set_instance exists_calls_open
      split: option.splits)

lemma exists_calls_keyed_line:
  "exists_calls (fst (keyed_line maxsize cgroup name key line r)) = exists_calls r"
  by (simp add: keyed_line_def exists_calls_set_instance split: option.splits list.splits)

lemma exists_calls_keyed_stat:
  "exists_calls (fst (read_cgroup_keyed_stat fs maxsize path cgroup name key r)) = exists_calls r"
proof (cases "files fs path")
  case None
  then show ?thesis by (simp add: read_cgroup_keyed_stat_def exists_calls_open)
next
  case (Some content)
  have "exists_calls (fst (run_all (map (keyed_line maxsize cgroup name key) (file_lines content))
          (logged (Open path) r))) = exists_calls (logged (Open path) r)"
    by (rule run_all_exists_calls) (auto simp add: exists_calls_keyed_line)
  then show ?thesis using Some by (simp add: read_cgroup_keyed_stat_def exists_calls_open)
qed

lemma exists_calls_sample_cgroup:
  "exists_calls (fst (sample_cgroup fs maxsize path r)) = exists_calls r"
proof (cases "str_replace path cgroups_v2_path [] = []")
  case True
  then show ?thesis by (simp add: sample_cgroup_def)
next
  case False
  then show ?thesis
    unfolding sample_cgroup_def Let_def if_not_P [OF False]
    by (intro run_all_exists_calls) (auto simp add: exists_calls_integer_stat exists_calls_keyed_stat)
qed



lemma integer_stat_skipped:
  assumes "files fs p = Some content"
    and "py_int (strip content) = None \<or> out_of_range maxsize (strip content)"
  shows "read_cgroup_integer_stat fs maxsize p cgroup name = skip_file p"
  using assms
  by (auto simp add: read_cgroup_integer_stat_def skip_file_def out_of_range_def fun_eq_iff
      split: option.splits)

lemma keyed_lines_skipped:
  assumes "list_all
             (\<lambda>line. if startswith line key
                then (case str_split line of [] \<Rightarrow> False
                      | w # ws \<Rightarrow> out_of_range maxsize (last (w # ws)))
                else True) ls"
  shows "run_all (map (keyed_line maxsize cgroup name key) ls) r = (r, None)"
  using assms
proof (induction ls)
  case Nil
  then show ?case by simp
next
  case (Cons l ls)
  have "keyed_line maxsize cgroup name key l r = (r, None)"
    using Cons.prems
    by (auto simp add: keyed_line_def out_of_range_def split: list.splits option.splits if_splits)
  then show ?case using Cons by simp
qed

lemma keyed_stat_skipped:
  assumes "files fs p = Some content"
    and "list_all
             (\<lambda>line. if startswith line key
                then (case str_split line of [] \<Rightarrow> False
                      | w # ws \<Rightarrow> out_of_range maxsize (last (w # ws)))
                else True) (file_lines content)"
  shows "read_cgroup_keyed_stat fs maxsize p cgroup name key = skip_file p"
  using assms(1) keyed_lines_skipped [OF assms(2)]
  by (simp add: read_cgroup_keyed_stat_def skip_file_def fun_eq_iff)




lemma stat_files_leaf:
  assumes "(leaf, name) \<in> set stat_files"
  shows "leaf = ''memory.current'' \<and> name = ''cgroup.memory.usage'' \<or>
        leaf = ''memory.max'' \<and> name = ''cgroup.memory.limit'' \<or>
        leaf = ''memory.swap.current'' \<and> name = ''cgroup.memory.sw-usage'' \<or>
        leaf = ''memory.swap.max'' \<and> name = ''cgroup.memory.sw-limit'' \<or>
        leaf = ''cpu.weight'' \<and> name = ''cgroup.cpu.shares'' \<or>
        leaf = ''cpu.stat'' \<and> name = ''cgroup.cpu.usage''"
  using assms by (simp add: stat_files_def)

lemma sample_cgroup_reads_keyed:
  assumes "cgroup = str_replace path cgroups_v2_path []" and "cgroup \<noteq> []"
    and "\<And>n. read_cgroup_keyed_stat fs maxsize (path_join path ''cpu.stat'') cgroup n ''usage_usec'' =
        skip_file (path_join path ''cpu.stat'')"
  shows "sample_cgroup fs maxsize path r = run_all (cgroup_reads fs maxsize path cgroup ''cpu.stat'') r"
  using assms
  by (simp add: sample_cgroup_def cgroup_reads_def stat_files_def Let_def del: run_all.simps)

lemma sample_cgroup_reads_integer:
  assumes "cgroup = str_replace path cgroups_v2_path []" and "cgroup \<noteq> []"
    and "\<And>n. read_cgroup_integer_stat fs maxsize (path_join path leaf) cgroup n =
        skip_file (path_join path leaf)"
    and "leaf = ''memory.current'' \<or> leaf = ''memory.max'' \<or> leaf = ''memory.swap.current'' \<or>
         leaf = ''memory.swap.max'' \<or> leaf = ''cpu.weight''"
  shows "sample_cgroup fs maxsize path r = run_all (cgroup_reads fs maxsize path cgroup leaf) r"
  using assms(4)
proof (elim disjE)
  assume l: "leaf = ''memory.current''"
  show ?thesis
    using assms(1,2,3) unfolding l
    by (simp add: sample_cgroup_def cgroup_reads_def stat_files_def Let_def del: run_all.simps)
next
  assume l: "leaf = ''memory.max''"
  show ?thesis
    using assms(1,2,3) unfolding l
    by (simp add: sample_cgroup_def cgroup_reads_def stat_files_def Let_def del: run_all.simps)
next
  assume l: "leaf = ''memory.swap.current''"
  show ?thesis
    using assms(1,2,3) unfolding l
    by (simp add: sample_cgroup_def cgroup_reads_def stat_files_def Let_def del: run_all.simps)
next
  assume l: "leaf = ''memory.swap.max''"
  show ?thesis
    using assms(1,2,3) unfolding l
    by (simp add: sample_cgroup_def cgroup_reads_def stat_files_def Let_def del: run_all.simps)
next
  assume l: "leaf = ''cpu.weight''"
  show ?thesis
    using assms(1,2,3) unfolding l
    by (simp add: sample_cgroup_def cgroup_reads_def stat_files_def Let_def del: run_all.simps)
qed

lemma sample_cgroup_reads:
  assumes "cgroup = str_replace path cgroups_v2_path []" and "cgroup \<noteq> []"
    and "(leaf, name) \<in> set stat_files"
    and "files fs (path_join path leaf) = Some content"
    and "yields_nothing maxsize leaf content"
  shows "sample_cgroup fs maxsize path r = run_all (cgroup_reads fs maxsize path cgroup leaf) r"
proof (cases "leaf = ''cpu.stat''")
  case True
  have "read_cgroup_keyed_stat fs maxsize (path_join path ''cpu.stat'') cgroup n ''usage_usec'' =
        skip_file (path_join path ''cpu.stat'')" for n
    using keyed_stat_skipped [OF assms(4), of "''usage_usec''" maxsize] assms(5) True
    by (simp add: yields_nothing_def)
  then show ?thesis
    unfolding True by (rule sample_cgroup_reads_keyed [OF assms(1,2)])
next
  case False
  have skip: "read_cgroup_integer_stat fs maxsize (path_join path leaf) cgroup n =
        skip_file (path_join path leaf)" for n
    using integer_stat_skipped [OF assms(4), of maxsize] assms(5) False
    by (simp add: yields_nothing_def)
  have "leaf = ''memory.current'' \<or> leaf = ''memory.max'' \<or> leaf = ''memory.swap.current'' \<or>
         leaf = ''memory.swap.max'' \<or> leaf = ''cpu.weight''"
    using stat_files_leaf [OF assms(3)] False by (elim disjE conjE) simp_all
  then show ?thesis
    by (rule sample_cgroup_reads_integer [OF assms(1,2) skip])
qed


lemma run_all_keeps:
  "(\<And>stmt r. stmt \<in> set stmts \<Longrightarrow> f (fst (stmt r)) = f r) \<Longrightarrow> f (fst (run_all stmts r)) = f r"
proof (induction stmts arbitrary: r)
  case Nil
  then show ?case by simp
next
  case (Cons stmt stmts)
  obtain r' e where s: "stmt r = (r', e)" by (cases "stmt r")
  have r': "f r' = f r"
    using Cons.prems [of stmt r] s by simp
  show ?case
  proof (cases e)
    case None
    then show ?thesis using s r' Cons.IH [of r'] Cons.prems by simp
  next
    case (Some a)
    then show ?thesis using s r' by simp
  qed
qed

lemma set_instance_other:
  "name' \<noteq> name \<Longrightarrow>
     instance_value (fst (set_instance name' k v r)) name key = instance_value r name key"
  by (simp add: set_instance_def instance_value_def split: option.splits val.splits)

lemma integer_stat_other:
  "name' \<noteq> name \<Longrightarrow>
     instance_value (fst (read_cgroup_integer_stat fs maxsize p cgroup name' r)) name key =
       instance_value r name key"
  by (simp add: read_cgroup_integer_stat_def Let_def set_instance_other instance_value_logged
      split: option.splits)

lemma keyed_line_other:
  "name' \<noteq> name \<Longrightarrow>
     instance_value (fst (keyed_line maxsize cgroup name' k line r)) name key =
       instance_value r name key"
  by (simp add: keyed_line_def set_instance_other split: option.splits list.splits)

lemma keyed_stat_other:
  assumes "name' \<noteq> name"
  shows "instance_value (fst (read_cgroup_keyed_stat fs maxsize p cgroup name' k r)) name key =
       instance_value r name key"
proof (cases "files fs p")
  case None
  then show ?thesis by (simp add: read_cgroup_keyed_stat_def instance_value_logged)
next
  case (Some content)
  have "instance_value (fst (run_all (map (keyed_line maxsize cgroup name' k) (file_lines content))
          (logged (Open p) r))) name key = instance_value (logged (Open p) r) name key"
    by (rule run_all_keeps) (auto simp add: keyed_line_other [OF assms])
  then show ?thesis using Some by (simp add: read_cgroup_keyed_stat_def instance_value_logged)
qed

lemma stat_files_names: "inj_on snd (set stat_files)"
proof -
  have "distinct (map snd stat_files)"
    by (simp add: stat_files_def)
  then show ?thesis by (simp add: distinct_map)
qed

lemma cgroup_reads_keep:
  assumes "(leaf, name) \<in> set stat_files"
  shows "instance_value (fst (run_all (cgroup_reads fs maxsize path cgroup leaf) r)) name key =
     instance_value r name key"
proof (rule run_all_keeps)
  fix stmt r
  assume "stmt \<in> set (cgroup_reads fs maxsize path cgroup leaf)"
  then obtain l n where ln: "(l, n) \<in> set stat_files"
    and stmt: "stmt =
        (if l = leaf then skip_file (path_join path l)
         else if l = ''cpu.stat''
         then read_cgroup_keyed_stat fs maxsize (path_join path l) cgroup n ''usage_usec''
         else read_cgroup_integer_stat fs maxsize (path_join path l) cgroup n)"
    by (auto simp add: cgroup_reads_def)
  show "instance_value (fst (stmt r)) name key = instance_value r name key"
  proof (cases "l = leaf")
    case True
    then show ?thesis by (simp add: stmt skip_file_def instance_value_logged)
  next
    case False
    have "n \<noteq> name"
      using inj_onD [OF stat_files_names, of "(l, n)" "(leaf, name)"] ln assms False by auto
    then show ?thesis
      using False by (simp add: stmt integer_stat_other keyed_stat_other)
  qed
qed

text \<open>
  C5 (as the code has it). Take any cgroup that \<open>sample\<close> processes, at \<open>path\<close>, and any of
  its six stat files whose content gives no value: for \<open>memory.current\<close>, \<open>memory.max\<close>,
  \<open>memory.swap.current\<close>, \<open>memory.swap.max\<close> and \<open>cpu.weight\<close>, text that \<open>int()\<close> rejects,
  such as \<open>max\<close>, or an integer outside the open interval from 0 to \<open>sys.maxsize\<close>, such
  as 0; for \<open>cpu.stat\<close>, lines under \<open>usage_usec\<close> that all end in an integer outside the
  interval. Then the read of that file only opens it, and the other reads of the cgroup
  go on as they are; the instance of the file's metric under the cgroup's key is after the
  cgroup what it was before; and the pass is the walk over all directories, with that one
  read left out: it continues with the remaining files and cgroups.
\<close>

theorem sample_cgroup_skips_unusable_stat:
  assumes "cgroup = str_replace path cgroups_v2_path []" and "cgroup \<noteq> []"
    and "(leaf, name) \<in> set stat_files"
    and "files fs (path_join path leaf) = Some content"
    and "yields_nothing maxsize leaf content"
  shows "sample_cgroup fs maxsize path r = run_all (cgroup_reads fs maxsize path cgroup leaf) r \<and>
     instance_value (fst (sample_cgroup fs maxsize path r)) name cgroup =
       instance_value r name cgroup \<and>
     snd (CGroupSampler_sample fs maxsize cgroups_v2 r) =
       run_all
         (map (\<lambda>q. if q = path then run_all (cgroup_reads fs maxsize path cgroup leaf)
                   else sample_cgroup fs maxsize q)
            (os_walk fs cgroups_v2_path))
         (logged (Walk cgroups_v2_path)
            (case cgroups_v2 of
               None \<Rightarrow> logged (Exists ''/sys/fs/cgroup/cgroup.controllers'') r
             | Some b \<Rightarrow> r))"
proof -
  have reads: "sample_cgroup fs maxsize path r' = run_all (cgroup_reads fs maxsize path cgroup leaf) r'"
    for r'
    by (rule sample_cgroup_reads [OF assms])
  then have same: "(\<lambda>q. if q = path then run_all (cgroup_reads fs maxsize path cgroup leaf)
                   else sample_cgroup fs maxsize q) = sample_cgroup fs maxsize"
    by (auto simp add: fun_eq_iff)
  have keep: "instance_value (fst (sample_cgroup fs maxsize path r)) name cgroup =
       instance_value r name cgroup"
    unfolding reads by (rule cgroup_reads_keep [OF assms(3)])
  have pass: "snd (CGroupSampler_sample fs maxsize cgroups_v2 r) =
       run_all (map (sample_cgroup fs maxsize) (os_walk fs cgroups_v2_path))
         (logged (Walk cgroups_v2_path)
            (case cgroups_v2 of
               None \<Rightarrow> logged (Exists ''/sys/fs/cgroup/cgroup.controllers'') r
             | Some b \<Rightarrow> r))"
    by (cases cgroups_v2) (simp_all add: CGroupSampler_sample_def cgroups_v2_path_def)
  show ?thesis
    using reads keep pass unfolding same by blast
qed

theorem sample_cgroup_skips_unusable_stat_witness:
  "instance_value (fst (sample_cgroup
      \<lparr>files = [''/sys/fs/cgroup/a/memory.current'' \<mapsto> ''4096\<newline>'',
                ''/sys/fs/cgroup/a/memory.max'' \<mapsto> ''max\<newline>'',
                ''/sys/fs/cgroup/a/cpu.stat'' \<mapsto> ''usage_usec 5000\<newline>''],
       dirs = [''/sys/fs/cgroup/'' \<mapsto> Dir [(''a'', Dir [])]]\<rparr>
      9223372036854775807 ''/sys/fs/cgroup/a''
      \<lparr>samples = Map.empty, defaulting = True, accesses = []\<rparr>))
     ''cgroup.memory.limit'' ''a'' = None"
proof -
  let ?fs = "\<lparr>files = [''/sys/fs/cgroup/a/memory.current'' \<mapsto> ''4096\<newline>'',
                ''/sys/fs/cgroup/a/memory.max'' \<mapsto> ''max\<newline>'',
                ''/sys/fs/cgroup/a/cpu.stat'' \<mapsto> ''usage_usec 5000\<newline>''],
       dirs = [''/sys/fs/cgroup/'' \<mapsto> Dir [(''a'', Dir [])]]\<rparr>"
  let ?r = "\<lparr>samples = Map.empty, defaulting = True, accesses = []\<rparr>"
  have cg: "''a'' = str_replace ''/sys/fs/cgroup/a'' cgroups_v2_path []"
    by (simp add: str_replace.simps cgroups_v2_path_def startswith_def)
  have ne: "''a'' \<noteq> []"
    by simp
  have st: "(''memory.max'', ''cgroup.memory.limit'') \<in> set stat_files"
    by (simp add: stat_files_def)
  have f: "files ?fs (path_join ''/sys/fs/cgroup/a'' ''memory.max'') = Some ''max\<newline>''"
    by (simp add: path_join_def startswith_def)
  have y: "yields_nothing 9223372036854775807 ''memory.max'' ''max\<newline>''"
    by (simp add: yields_nothing_def text_defs)
  have i: "instance_value ?r ''cgroup.memory.limit'' ''a'' = None"
    by (simp add: instance_value_def)
  have "instance_value (fst (sample_cgroup ?fs 9223372036854775807 ''/sys/fs/cgroup/a'' ?r))
      ''cgroup.memory.limit'' ''a'' = instance_value ?r ''cgroup.memory.limit'' ''a''"
    using sample_cgroup_skips_unusable_stat [OF cg ne st f y, of ?r None] by (rule conjunct1 [OF conjunct2])
  then show ?thesis
    unfolding i .
qed

text \<open>
  A pass over two cgroups where \<open>memory.current\<close> of \<open>a\<close> holds 0, \<open>memory.max\<close> of \<open>a\<close> holds
  \<open>max\<close> and \<open>cpu.stat\<close> of \<open>b\<close> holds \<open>usage_usec 0\<close>: nothing is raised, and the sink ends
  with the two entries that the other files give.
\<close>

lemma cgroup_pass_example:
  "snd (snd (CGroupSampler_sample
      \<lparr>files = [''/sys/fs/cgroup/a/memory.current'' \<mapsto> ''0\<newline>'',
                ''/sys/fs/cgroup/a/memory.max'' \<mapsto> ''max\<newline>'',
                ''/sys/fs/cgroup/a/cpu.stat'' \<mapsto> ''usage_usec 5000\<newline>'',
                ''/sys/fs/cgroup/b/memory.current'' \<mapsto> ''4096\<newline>'',
                ''/sys/fs/cgroup/b/cpu.stat'' \<mapsto> ''usage_usec 0\<newline>''],
       dirs = [''/sys/fs/cgroup/'' \<mapsto> Dir [(''a'', Dir []), (''b'', Dir [])]]\<rparr>
      9223372036854775807 None
      \<lparr>samples = Map.empty, defaulting = True, accesses = []\<rparr>)) = None \<and>
   samples (fst (snd (CGroupSampler_sample
      \<lparr>files = [''/sys/fs/cgroup/a/memory.current'' \<mapsto> ''0\<newline>'',
                ''/sys/fs/cgroup/a/memory.max'' \<mapsto> ''max\<newline>'',
                ''/sys/fs/cgroup/a/cpu.stat'' \<mapsto> ''usage_usec 5000\<newline>'',
                ''/sys/fs/cgroup/b/memory.current'' \<mapsto> ''4096\<newline>'',
                ''/sys/fs/cgroup/b/cpu.stat'' \<mapsto> ''usage_usec 0\<newline>''],
       dirs = [''/sys/fs/cgroup/'' \<mapsto> Dir [(''a'', Dir []), (''b'', Dir [])]]\<rparr>
      9223372036854775807 None
      \<lparr>samples = Map.empty, defaulting = True, accesses = []\<rparr>))) =
     [''cgroup.cpu.usage'' \<mapsto> Inst [''a'' \<mapsto> 5],
      ''cgroup.memory.usage'' \<mapsto> Inst [''b'' \<mapsto> 4096]]"
  by (simp add: cgroup_defs text_defs set_instance_def)

text \<open>
  The claim as it was stated also covers a \<open>cpu.stat\<close> whose content fails integer
  parsing. There a value that \<open>int()\<close> rejects is not caught: with \<open>usage_usec max\<close> in the \<open>cpu.stat\<close> of the cgroup \<open>a\<close>, the pass ends
  in a \<open>ValueError\<close> and never reaches the cgroup \<open>b\<close>, whose \<open>memory.current\<close> holds 4096.
\<close>

theorem cgroup_bad_cpu_stat_counterexample:
  "snd (snd (CGroupSampler_sample
      \<lparr>files = [''/sys/fs/cgroup/a/cpu.stat'' \<mapsto> ''usage_usec max\<newline>'',
                ''/sys/fs/cgroup/b/memory.current'' \<mapsto> ''4096\<newline>'',
                ''/sys/fs/cgroup/b/cpu.stat'' \<mapsto> ''usage_usec 7000\<newline>''],
       dirs = [''/sys/fs/cgroup/'' \<mapsto> Dir [(''a'', Dir []), (''b'', Dir [])]]\<rparr>
      9223372036854775807 None
      \<lparr>samples = Map.empty, defaulting = True, accesses = []\<rparr>)) = Some ValueError \<and>
   instance_value (fst (snd (CGroupSampler_sample
      \<lparr>files = [''/sys/fs/cgroup/a/cpu.stat'' \<mapsto> ''usage_usec max\<newline>'',
                ''/sys/fs/cgroup/b/memory.current'' \<mapsto> ''4096\<newline>'',
                ''/sys/fs/cgroup/b/cpu.stat'' \<mapsto> ''usage_usec 7000\<newline>''],
       dirs = [''/sys/fs/cgroup/'' \<mapsto> Dir [(''a'', Dir []), (''b'', Dir [])]]\<rparr>
      9223372036854775807 None
      \<lparr>samples = Map.empty, defaulting = True, accesses = []\<rparr>)))
     ''cgroup.memory.usage'' ''b'' = None"
  by (simp add: cgroup_defs text_defs instance_value_def)


text \<open>The same tree with a number in that line: the pass reaches \<open>b\<close>.\<close>

lemma cgroup_good_cpu_stat:
  "snd (snd (CGroupSampler_sample
      \<lparr>files = [''/sys/fs/cgroup/a/cpu.stat'' \<mapsto> ''usage_usec 5000\<newline>'',
                ''/sys/fs/cgroup/b/memory.current'' \<mapsto> ''4096\<newline>'',
                ''/sys/fs/cgroup/b/cpu.stat'' \<mapsto> ''usage_usec 7000\<newline>''],
       dirs = [''/sys/fs/cgroup/'' \<mapsto> Dir [(''a'', Dir []), (''b'', Dir [])]]\<rparr>
      9223372036854775807 None
      \<lparr>samples = Map.empty, defaulting = True, accesses = []\<rparr>)) = None \<and>
   instance_value (fst (snd (CGroupSampler_sample
      \<lparr>files = [''/sys/fs/cgroup/a/cpu.stat'' \<mapsto> ''usage_usec 5000\<newline>'',
                ''/sys/fs/cgroup/b/memory.current'' \<mapsto> ''4096\<newline>'',
                ''/sys/fs/cgroup/b/cpu.stat'' \<mapsto> ''usage_usec 7000\<newline>''],
       dirs = [''/sys/fs/cgroup/'' \<mapsto> Dir [(''a'', Dir []), (''b'', Dir [])]]\<rparr>
      9223372036854775807 None
      \<lparr>samples = Map.empty, defaulting = True, accesses = []\<rparr>)))
     ''cgroup.memory.usage'' ''b'' = Some 4096"
  by (simp add: cgroup_defs text_defs instance_value_def set_instance_def)


text \<open>
  C7. A call that starts with \<open>cgroups_v2\<close> resolved to \<open>True\<close> or \<open>False\<close> leaves it as it
  is, and makes no call of \<open>os.path.exists\<close>: the paths handed to it so far are the same
  after the call as before.
\<close>

theorem CGroupSampler_resolved_flag_kept:
  "fst (CGroupSampler_sample fs maxsize (Some b) r) = Some b \<and>
   exists_calls (fst (snd (CGroupSampler_sample fs maxsize (Some b) r))) = exists_calls r"
proof -
  have "exists_calls (fst (run_all (map (sample_cgroup fs maxsize) (os_walk fs cgroups_v2_path))
          (logged (Walk cgroups_v2_path) r))) = exists_calls (logged (Walk cgroups_v2_path) r)"
    by (rule run_all_exists_calls) (auto simp add: exists_calls_sample_cgroup)
  then show ?thesis
    by (simp add: CGroupSampler_sample_def exists_calls_walk)
qed


text \<open>
  C10. The tree walk and the entries written do not depend on the value \<open>cgroups_v2\<close> has
  resolved to: from the same file system and sink, the call with \<open>True\<close> and the call
  with \<open>False\<close> end with the same sink, the same file system accesses and the same
  outcome.
\<close>

theorem CGroupSampler_flag_irrelevant:
  "snd (CGroupSampler_sample fs maxsize (Some True) r) =
   snd (CGroupSampler_sample fs maxsize (Some False) r)"
  by (simp add: CGroupSampler_sample_def)

section \<open>Properties of CPUTemperatureSampler\<close>

text \<open>The two loops, unfolded once, for evaluation.\<close>

lemma detect_from_eval:
  "detect_from fs hwmonid name index (sensors, r) =
     (if index < 2 ^ 32 then
        if \<not> path_exists fs (temp_file hwmonid index ''input'')
        then ((sensors, logged (Exists (temp_file hwmonid index ''input'')) r), None)
        else
          (case files fs (temp_file hwmonid index ''label'') of
             None \<Rightarrow>
               ((sensors, logged (Open (temp_file hwmonid index ''label''))
                   (logged (Exists (temp_file hwmonid index ''input'')) r)),
                Some FileNotFoundError)
           | Some content \<Rightarrow>
               detect_from fs hwmonid name (index + 1)
                 (if sensor_wanted name (strip content)
                  then sensors @ [temp_file hwmonid index ''input''] else sensors,
                  logged (Open (temp_file hwmonid index ''label''))
                    (logged (Exists (temp_file hwmonid index ''input'')) r)))
      else ((sensors, r), None))"
  by (subst detect_from.simps) (simp add: Let_def split: option.split)

lemma discover_from_eval:
  "discover_from fs index (sensors, r) =
     (if index < 2 ^ 32 then
        (case files fs (hwmon_file index ''name'') of
           None \<Rightarrow> ((sensors, logged (Open (hwmon_file index ''name'')) r), None)
         | Some content \<Rightarrow>
             if strip content \<in> set cpu_names then
               (case detect_cpu_sensors fs index (strip content)
                       (sensors, logged (Open (hwmon_file index ''name'')) r) of
                  (s, None) \<Rightarrow> discover_from fs (index + 1) s
                | (s, Some e) \<Rightarrow> if e = FileNotFoundError then (s, None) else (s, Some e))
             else discover_from fs (index + 1) (sensors, logged (Open (hwmon_file index ''name'')) r))
      else ((sensors, r), None))"
  by (subst discover_from.simps) (simp add: Let_def split: option.split)

lemmas hwmon_eval = hwmon_file_def temp_file_def str_nat.simps detect_cpu_sensors_def
  detect_from_eval discover_from_eval cpu_names_def path_exists_def sensor_wanted_def

lemma sensor_wanted_rule: "sensor_wanted name label = inclusion_rule name label"
  by (simp add: sensor_wanted_def inclusion_rule_def)

lemma detect_from_enumerates:
  assumes "k \<le> m" and "m < 2 ^ 32"
    and "\<forall>i. k \<le> i \<and> i < m \<longrightarrow>
           path_exists fs (temp_file h i ''input'') \<and>
           files fs (temp_file h i ''label'') = Some (labels i)"
    and "\<not> path_exists fs (temp_file h m ''input'') \<or> files fs (temp_file h m ''label'') = None"
  shows "fst (fst (detect_from fs h name k (sensors, r))) =
     sensors @ map (\<lambda>i. temp_file h i ''input'')
       (filter (\<lambda>i. inclusion_rule name (strip (labels i))) [k..<m])"
  using assms
proof (induction "m - k" arbitrary: k sensors r)
  case 0
  then have km: "k = m" by simp
  show ?case
    using "0.prems"(2,4) unfolding km
    by (subst detect_from.simps) (auto simp add: Let_def)
next
  case (Suc d)
  then have lt: "k < m" by simp
  have ex: "path_exists fs (temp_file h k ''input'')"
    and lab: "files fs (temp_file h k ''label'') = Some (labels k)"
    using Suc.prems(3) lt by auto
  have d: "d = m - Suc k" using Suc.hyps(2) by simp
  have rest: "\<forall>i. Suc k \<le> i \<and> i < m \<longrightarrow>
           path_exists fs (temp_file h i ''input'') \<and>
           files fs (temp_file h i ''label'') = Some (labels i)"
    using Suc.prems(3) by auto
  have step: "fst (fst (detect_from fs h name (Suc k) (s', r'))) =
     s' @ map (\<lambda>i. temp_file h i ''input'')
       (filter (\<lambda>i. inclusion_rule name (strip (labels i))) [Suc k..<m])" for s' r'
    using Suc.hyps(1) [OF d _ Suc.prems(2) rest Suc.prems(4)] lt by simp
  have k32: "k < 2 ^ 32" using lt Suc.prems(2) by simp
  show ?case
    using ex lab lt k32
    by (subst detect_from.simps) (simp add: Let_def step upt_conv_Cons sensor_wanted_rule)
qed

text \<open>
  What the loop of \<open>detect_cpu_sensors\<close> appends when every sensor it finds has a label
  file: let it find the sensors 1 to \<open>m - 1\<close> with their label files, and end at \<open>m\<close>. Then
  the paths it appends to the cache are those of the sensors among 1 to \<open>m - 1\<close> that the
  inclusion rule of the specification admits, in order; a label is present when the stripped
  text of the label file is not empty.
\<close>

lemma detect_cpu_sensors_inclusion:
  assumes "1 \<le> m" and "m < 2 ^ 32"
    and "\<forall>i. 1 \<le> i \<and> i < m \<longrightarrow>
           path_exists fs (temp_file h i ''input'') \<and>
           files fs (temp_file h i ''label'') = Some (labels i)"
    and "\<not> path_exists fs (temp_file h m ''input'') \<or> files fs (temp_file h m ''label'') = None"
  shows "fst (fst (detect_cpu_sensors fs h name (sensors, r))) =
     sensors @ map (\<lambda>i. temp_file h i ''input'')
       (filter (\<lambda>i. inclusion_rule name (strip (labels i))) [1..<m])"
  unfolding detect_cpu_sensors_def
  by (rule detect_from_enumerates [OF assms])

lemma detect_cpu_sensors_inclusion_example:
  "fst (fst (detect_cpu_sensors
      \<lparr>files = [''/sys/class/hwmon/hwmon0/temp1_input'' \<mapsto> ''41000\<newline>'',
                ''/sys/class/hwmon/hwmon0/temp1_label'' \<mapsto> ''CPU Temperature\<newline>'',
                ''/sys/class/hwmon/hwmon0/temp2_input'' \<mapsto> ''35000\<newline>'',
                ''/sys/class/hwmon/hwmon0/temp2_label'' \<mapsto> ''MB Temperature\<newline>''],
       dirs = Map.empty\<rparr>
      0 ''atk0110'' ([], \<lparr>samples = Map.empty, defaulting = True, accesses = []\<rparr>))) =
   [''/sys/class/hwmon/hwmon0/temp1_input'']"
proof -
  let ?fs = "\<lparr>files = [''/sys/class/hwmon/hwmon0/temp1_input'' \<mapsto> ''41000\<newline>'',
                ''/sys/class/hwmon/hwmon0/temp1_label'' \<mapsto> ''CPU Temperature\<newline>'',
                ''/sys/class/hwmon/hwmon0/temp2_input'' \<mapsto> ''35000\<newline>'',
                ''/sys/class/hwmon/hwmon0/temp2_label'' \<mapsto> ''MB Temperature\<newline>''],
       dirs = Map.empty\<rparr>"
  let ?labels = "\<lambda>i::nat. if i = 1 then ''CPU Temperature\<newline>'' else ''MB Temperature\<newline>''"
  have t1: "temp_file 0 (Suc 0) k = ''/sys/class/hwmon/hwmon0/temp1_'' @ k" for k
    by (simp add: temp_file_def hwmon_file_def str_nat.simps)
  have t2: "temp_file 0 2 k = ''/sys/class/hwmon/hwmon0/temp2_'' @ k" for k
    by (simp add: temp_file_def hwmon_file_def str_nat.simps)
  have t3: "temp_file 0 3 k = ''/sys/class/hwmon/hwmon0/temp3_'' @ k" for k
    by (simp add: temp_file_def hwmon_file_def str_nat.simps)
  have m1: "(1::nat) \<le> 3" and m2: "(3::nat) < 2 ^ 32"
    by simp_all
  have f1: "path_exists ?fs (temp_file 0 (Suc 0) ''input'') \<and>
      files ?fs (temp_file 0 (Suc 0) ''label'') = Some (?labels (Suc 0))"
    by (simp add: t1 path_exists_def)
  have f2: "path_exists ?fs (temp_file 0 2 ''input'') \<and>
      files ?fs (temp_file 0 2 ''label'') = Some (?labels 2)"
    by (simp add: t2 path_exists_def)
  have found: "\<forall>i. 1 \<le> i \<and> i < 3 \<longrightarrow>
      path_exists ?fs (temp_file 0 i ''input'') \<and>
      files ?fs (temp_file 0 i ''label'') = Some (?labels i)"
  proof (intro allI impI)
    fix i :: nat
    assume "1 \<le> i \<and> i < 3"
    then have "i = Suc 0 \<or> i = 2" by arith
    then show "path_exists ?fs (temp_file 0 i ''input'') \<and>
      files ?fs (temp_file 0 i ''label'') = Some (?labels i)"
      using f1 f2 by blast
  qed
  have last: "\<not> path_exists ?fs (temp_file 0 3 ''input'') \<or>
      files ?fs (temp_file 0 3 ''label'') = None"
    by (simp add: t3 path_exists_def)
  have chosen: "map (\<lambda>i. temp_file 0 i ''input'')
      (filter (\<lambda>i. inclusion_rule ''atk0110'' (strip (?labels i))) [1..<3]) =
      [''/sys/class/hwmon/hwmon0/temp1_input'']"
    by (simp add: upt_conv_Cons t1 inclusion_rule_def text_defs)
  show ?thesis
    using detect_cpu_sensors_inclusion [OF m1 m2 found last, of "''atk0110''" "[]"
        "\<lparr>samples = Map.empty, defaulting = True, accesses = []\<rparr>"]
    unfolding chosen by simp
qed
lemma logged_accesses_update: "logged e r = r\<lparr>accesses := accesses r @ [e]\<rparr>"
  by (simp add: logged_def)

lemma detect_from_run:
  "\<exists>xs. snd (fst (detect_from fs h name i (s, r))) = r\<lparr>accesses := accesses r @ xs\<rparr> \<and>
     (snd (detect_from fs h name i (s, r)) = None \<or>
      snd (detect_from fs h name i (s, r)) = Some FileNotFoundError)"
proof (induction "(2::nat) ^ 32 - i" arbitrary: i s r)
  case 0
  then have "\<not> i < 2 ^ 32" by simp
  then have "detect_from fs h name i (s, r) = ((s, r), None)"
    by (subst detect_from_eval) simp
  then show ?case by (simp add: exI [of _ "[]"])
next
  case (Suc d)
  then have lt: "i < 2 ^ 32" and d: "d = 2 ^ 32 - (i + 1)" by simp_all
  let ?r1 = "logged (Exists (temp_file h i ''input'')) r"
  let ?r2 = "logged (Open (temp_file h i ''label'')) ?r1"
  show ?case
  proof (cases "path_exists fs (temp_file h i ''input'')")
    case False
    then have "detect_from fs h name i (s, r) = ((s, ?r1), None)"
      using lt by (subst detect_from_eval) simp
    then have "snd (fst (detect_from fs h name i (s, r))) =
          r\<lparr>accesses := accesses r @ [Exists (temp_file h i ''input'')]\<rparr> \<and>
        snd (detect_from fs h name i (s, r)) = None"
      by (simp add: logged_accesses_update)
    then show ?thesis by blast
  next
    case True
    show ?thesis
    proof (cases "files fs (temp_file h i ''label'')")
      case None
      then have "detect_from fs h name i (s, r) = ((s, ?r2), Some FileNotFoundError)"
        using lt True by (subst detect_from_eval) simp
      then have "snd (fst (detect_from fs h name i (s, r))) =
            r\<lparr>accesses := accesses r @
              [Exists (temp_file h i ''input''), Open (temp_file h i ''label'')]\<rparr> \<and>
          snd (detect_from fs h name i (s, r)) = Some FileNotFoundError"
        by (simp add: logged_accesses_update)
      then show ?thesis by blast
    next
      case (Some content)
      let ?s' = "if sensor_wanted name (strip content) then s @ [temp_file h i ''input''] else s"
      have step: "detect_from fs h name i (s, r) = detect_from fs h name (i + 1) (?s', ?r2)"
        using lt True Some by (subst detect_from_eval) simp
      obtain xs where xs: "snd (fst (detect_from fs h name (i + 1) (?s', ?r2))) =
            ?r2\<lparr>accesses := accesses ?r2 @ xs\<rparr>"
        and e: "snd (detect_from fs h name (i + 1) (?s', ?r2)) = None \<or>
            snd (detect_from fs h name (i + 1) (?s', ?r2)) = Some FileNotFoundError"
        using Suc.hyps(1) [OF d, of ?s' ?r2] by blast
      have "snd (fst (detect_from fs h name i (s, r))) =
          r\<lparr>accesses := accesses r @
            (Exists (temp_file h i ''input'') # Open (temp_file h i ''label'') # xs)\<rparr>"
        unfolding step xs by (simp add: logged_accesses_update)
      then show ?thesis using e unfolding step by blast
    qed
  qed
qed

lemma discover_from_run:
  "\<exists>xs. snd (fst (discover_from fs i (s, r))) =
       r\<lparr>accesses := accesses r @ (if i < 2 ^ 32 then Open (hwmon_file i ''name'') # xs else [])\<rparr> \<and>
     snd (discover_from fs i (s, r)) = None"
proof (induction "(2::nat) ^ 32 - i" arbitrary: i s r)
  case 0
  then have ge: "\<not> i < 2 ^ 32" by simp
  then have "discover_from fs i (s, r) = ((s, r), None)"
    by (subst discover_from_eval) simp
  then show ?case using ge by simp
next
  case (Suc d)
  then have lt: "i < 2 ^ 32" and d: "d = 2 ^ 32 - (i + 1)" by simp_all
  let ?r1 = "logged (Open (hwmon_file i ''name'')) r"
  have rec: "\<exists>ys. snd (fst (discover_from fs (i + 1) (s', r'))) = r'\<lparr>accesses := accesses r' @ ys\<rparr> \<and>
      snd (discover_from fs (i + 1) (s', r')) = None" for s' r'
    using Suc.hyps(1) [OF d, of s' r'] by blast
  show ?case
  proof (cases "files fs (hwmon_file i ''name'')")
    case None
    then have "discover_from fs i (s, r) = ((s, ?r1), None)"
      using lt by (subst discover_from_eval) simp
    then have "snd (fst (discover_from fs i (s, r))) =
          r\<lparr>accesses := accesses r @ Open (hwmon_file i ''name'') # []\<rparr> \<and>
        snd (discover_from fs i (s, r)) = None"
      by (simp add: logged_accesses_update)
    then show ?thesis using lt by auto
  next
    case (Some content)
    show ?thesis
    proof (cases "strip content \<in> set cpu_names")
      case False
      then have step: "discover_from fs i (s, r) = discover_from fs (i + 1) (s, ?r1)"
        using lt Some by (subst discover_from_eval) simp
      obtain ys where "snd (fst (discover_from fs (i + 1) (s, ?r1))) = ?r1\<lparr>accesses := accesses ?r1 @ ys\<rparr>"
        and "snd (discover_from fs (i + 1) (s, ?r1)) = None"
        using rec by blast
      then have "snd (fst (discover_from fs i (s, r))) =
            r\<lparr>accesses := accesses r @ Open (hwmon_file i ''name'') # ys\<rparr> \<and>
          snd (discover_from fs i (s, r)) = None"
        unfolding step by (simp add: logged_accesses_update)
      then show ?thesis using lt by auto
    next
      case True
      obtain s1 r1 e1 where det: "detect_cpu_sensors fs i (strip content) (s, ?r1) = ((s1, r1), e1)"
        by (cases "detect_cpu_sensors fs i (strip content) (s, ?r1)") auto
      obtain xs where r1: "r1 = ?r1\<lparr>accesses := accesses ?r1 @ xs\<rparr>"
        and e1: "e1 = None \<or> e1 = Some FileNotFoundError"
        using detect_from_run [of fs i "strip content" 1 s ?r1] det
        by (auto simp add: detect_cpu_sensors_def)
      show ?thesis
      proof (cases e1)
        case None
        then have step: "discover_from fs i (s, r) = discover_from fs (i + 1) (s1, r1)"
          using lt Some True det by (subst discover_from_eval) simp
        obtain ys where "snd (fst (discover_from fs (i + 1) (s1, r1))) = r1\<lparr>accesses := accesses r1 @ ys\<rparr>"
          and "snd (discover_from fs (i + 1) (s1, r1)) = None"
          using rec by blast
        then have "snd (fst (discover_from fs i (s, r))) =
              r\<lparr>accesses := accesses r @ Open (hwmon_file i ''name'') # (xs @ ys)\<rparr> \<and>
            snd (discover_from fs i (s, r)) = None"
          unfolding step r1 by (simp add: logged_accesses_update)
        then show ?thesis using lt by auto
      next
        case (Some e)
        then have "e1 = Some FileNotFoundError" using e1 by simp
        then have "discover_from fs i (s, r) = ((s1, r1), None)"
          using lt \<open>files fs (hwmon_file i ''name'') = Some content\<close> True det
          by (subst discover_from_eval) simp
        then have "snd (fst (discover_from fs i (s, r))) =
              r\<lparr>accesses := accesses r @ Open (hwmon_file i ''name'') # xs\<rparr> \<and>
            snd (discover_from fs i (s, r)) = None"
          unfolding r1 by (simp add: logged_accesses_update)
        then show ?thesis using lt by auto
      qed
    qed
  qed
qed

lemma accepts_accesses_update:
  "accepts_instances (r\<lparr>accesses := a\<rparr>) name = accepts_instances r name"
  by (simp add: accepts_instances_def split: option.splits)

lemma instance_value_accesses_update:
  "instance_value (r\<lparr>accesses := a\<rparr>) name key = instance_value r name key"
  by (simp add: instance_value_def)

text \<open>
  C8 (the code departs from it). A sensor without a label is meant to be cached when the
  device is \<open>cpu_thermal\<close>: the loop has a branch for it, with the comment that labels are
  not used on ARM. The branch is reached only when \<open>tempN_label\<close> can be opened and is
  empty. Where the file is not there, \<open>open\<close> raises \<open>FileNotFoundError\<close>, which \<open>sample\<close>
  takes for the end of the hwmon devices: below, the sensor of the \<open>cpu_thermal\<close> device
  \<open>hwmon0\<close> is not cached, and the device \<open>hwmon1\<close> with its labelled sensor is never looked
  at.
\<close>

theorem cpu_thermal_without_label_file:
  "CPUTemperatureSampler_sample
     \<lparr>files = [''/sys/class/hwmon/hwmon0/name'' \<mapsto> ''cpu_thermal\<newline>'',
               ''/sys/class/hwmon/hwmon0/temp1_input'' \<mapsto> ''47000\<newline>'',
               ''/sys/class/hwmon/hwmon1/name'' \<mapsto> ''coretemp\<newline>'',
               ''/sys/class/hwmon/hwmon1/temp1_input'' \<mapsto> ''52000\<newline>'',
               ''/sys/class/hwmon/hwmon1/temp1_label'' \<mapsto> ''Core 0\<newline>''], dirs = Map.empty\<rparr>
     [] \<lparr>samples = Map.empty, defaulting = True, accesses = []\<rparr> =
   (([], \<lparr>samples = Map.empty, defaulting = True,
          accesses = [Open ''/sys/class/hwmon/hwmon0/name'',
            Exists ''/sys/class/hwmon/hwmon0/temp1_input'',
            Open ''/sys/class/hwmon/hwmon0/temp1_label'']\<rparr>), None)"
  by (simp add: CPUTemperatureSampler_sample_def hwmon_eval text_defs logged_def Let_def)

text \<open>With an empty label file in place, the same sensor is cached.\<close>

lemma cpu_thermal_with_empty_label_file:
  "fst (fst (CPUTemperatureSampler_sample
     \<lparr>files = [''/sys/class/hwmon/hwmon0/name'' \<mapsto> ''cpu_thermal\<newline>'',
               ''/sys/class/hwmon/hwmon0/temp1_input'' \<mapsto> ''47000\<newline>'',
               ''/sys/class/hwmon/hwmon0/temp1_label'' \<mapsto> ''\<newline>''], dirs = Map.empty\<rparr>
     [] \<lparr>samples = Map.empty, defaulting = True, accesses = []\<rparr>)) =
   [''/sys/class/hwmon/hwmon0/temp1_input'']"
  by (simp add: CPUTemperatureSampler_sample_def hwmon_eval text_defs logged_def Let_def
      set_instance_def)

lemma read_sensors_prefix:
  assumes "\<forall>p\<in>set pre. \<exists>v. sensor_reading fs p = Some v \<and> v \<noteq> 0"
    and "\<forall>z\<in>set (take 1 rest). sensor_reading fs z = Some 0"
    and "accepts_instances r ''cpu.temperature''"
  shows "snd (read_sensors fs (pre @ rest) r) = None \<and>
     (\<forall>p. instance_value (fst (read_sensors fs (pre @ rest) r)) ''cpu.temperature'' p =
        (if p \<in> set pre then map_option (\<lambda>v. of_int v / 1000) (sensor_reading fs p)
         else instance_value r ''cpu.temperature'' p)) \<and>
     accesses (fst (read_sensors fs (pre @ rest) r)) = accesses r @ map Open (pre @ take 1 rest)"
  using assms
proof (induction pre arbitrary: r)
  case Nil
  show ?case
  proof (cases rest)
    case Nil
    then show ?thesis by simp
  next
    case (Cons z post)
    then have "sensor_reading fs z = Some 0"
      using Nil.prems(2) by simp
    then show ?thesis
      unfolding Cons
      by (auto simp add: sensor_reading_def instance_value_logged accesses_logged
          split: option.splits)
  qed
next
  case (Cons p pre)
  obtain v where v: "sensor_reading fs p = Some v" "v \<noteq> 0"
    using Cons.prems(1) by auto
  let ?r2 = "put_instance ''cpu.temperature'' p (of_int v / 1000) (logged (Open p) r)"
  have acc: "accepts_instances (logged (Open p) r) ''cpu.temperature''"
    using Cons.prems(3) by (simp add: accepts_logged)
  have unfold: "read_sensors fs ((p # pre) @ rest) r = read_sensors fs (pre @ rest) ?r2"
    using v acc
    by (auto simp add: sensor_reading_def set_instance_accepted split: option.splits)
  have ih: "snd (read_sensors fs (pre @ rest) ?r2) = None \<and>
     (\<forall>q. instance_value (fst (read_sensors fs (pre @ rest) ?r2)) ''cpu.temperature'' q =
        (if q \<in> set pre then map_option (\<lambda>v. of_int v / 1000) (sensor_reading fs q)
         else instance_value ?r2 ''cpu.temperature'' q)) \<and>
     accesses (fst (read_sensors fs (pre @ rest) ?r2)) = accesses ?r2 @ map Open (pre @ take 1 rest)"
    using Cons.prems(1,2) by (intro Cons.IH) (simp_all add: accepts_put)
  show ?case
    unfolding unfold using ih v
    by (auto simp add: instance_value_put instance_value_logged accesses_put accesses_logged)
qed

text \<open>
  C9. Take any pass, and split the cache its reading phase works on into the sensors
  \<open>pre\<close>, which all read integers other than zero, and the sensors \<open>rest\<close> after them, where
  \<open>rest\<close> is empty (no sensor reads zero) or begins with a sensor that reads zero. Then the
  call raises nothing; it writes \<open>cpu.temperature\<close> under each path of \<open>pre\<close> as its reading
  divided by 1000; it leaves every other instance of \<open>cpu.temperature\<close> as it was, so there
  is no entry for the sensor that reads zero or for one after it; and after the scan, if
  any, it opens the sensors of \<open>pre\<close> and the first of \<open>rest\<close> and no other.
\<close>

theorem CPUTemperatureSampler_reading_phase:
  assumes "res = CPUTemperatureSampler_sample fs sensors r"
    and "fst (fst res) = pre @ rest"
    and "\<forall>p\<in>set pre. \<exists>v. sensor_reading fs p = Some v \<and> v \<noteq> 0"
    and "\<forall>z\<in>set (take 1 rest). sensor_reading fs z = Some 0"
    and "accepts_instances r ''cpu.temperature''"
  shows "snd res = None \<and>
     (\<forall>p. instance_value (snd (fst res)) ''cpu.temperature'' p =
        (if p \<in> set pre then map_option (\<lambda>v. of_int v / 1000) (sensor_reading fs p)
         else instance_value r ''cpu.temperature'' p)) \<and>
     (\<exists>scan. accesses (snd (fst res)) = accesses r @ scan @ map Open (pre @ take 1 rest) \<and>
        (sensors \<noteq> [] \<longrightarrow> scan = []))"
proof -
  obtain cache r1 where disc:
    "(if sensors = [] then discover_from fs 0 (sensors, r) else ((sensors, r), None)) =
       ((cache, r1), None)"
    and r1: "\<exists>scan. r1 = r\<lparr>accesses := accesses r @ scan\<rparr> \<and> (sensors \<noteq> [] \<longrightarrow> scan = [])"
  proof (cases "sensors = []")
    case True
    obtain c r' e where d: "discover_from fs 0 ([], r) = ((c, r'), e)"
      by (cases "discover_from fs 0 ([], r)") auto
    obtain xs where "r' = r\<lparr>accesses := accesses r @ Open (hwmon_file 0 ''name'') # xs\<rparr>"
      and "e = None"
      using discover_from_run [of fs 0 "[]" r] d by auto
    then show ?thesis using that [of c r'] True d by auto
  next
    case False
    have "r = r\<lparr>accesses := accesses r @ []\<rparr>" by simp
    then show ?thesis using that [of sensors r] False by auto
  qed
  obtain r2 e where rs: "read_sensors fs cache r1 = (r2, e)"
    by (cases "read_sensors fs cache r1")
  have res: "res = ((cache, r2), e)"
    unfolding assms(1) CPUTemperatureSampler_sample_def disc using rs by simp
  have cache: "cache = pre @ rest"
    using assms(2) res by simp
  obtain scan where scan: "r1 = r\<lparr>accesses := accesses r @ scan\<rparr>"
    and cached: "sensors \<noteq> [] \<longrightarrow> scan = []"
    using r1 by blast
  have acc: "accepts_instances r1 ''cpu.temperature''"
    unfolding scan using assms(5) by (simp add: accepts_accesses_update)
  have rd: "snd (read_sensors fs (pre @ rest) r1) = None \<and>
     (\<forall>p. instance_value (fst (read_sensors fs (pre @ rest) r1)) ''cpu.temperature'' p =
        (if p \<in> set pre then map_option (\<lambda>v. of_int v / 1000) (sensor_reading fs p)
         else instance_value r1 ''cpu.temperature'' p)) \<and>
     accesses (fst (read_sensors fs (pre @ rest) r1)) = accesses r1 @ map Open (pre @ take 1 rest)"
    by (rule read_sensors_prefix [OF assms(3,4) acc])
  have "accesses r2 = accesses r @ scan @ map Open (pre @ take 1 rest)"
    using rd rs unfolding cache [symmetric] scan by simp
  then have "\<exists>scan. accesses (snd (fst res)) = accesses r @ scan @ map Open (pre @ take 1 rest) \<and>
        (sensors \<noteq> [] \<longrightarrow> scan = [])"
    unfolding res using cached by auto
  moreover have "snd res = None"
    using rd rs unfolding cache [symmetric] res by simp
  moreover have "\<forall>p. instance_value (snd (fst res)) ''cpu.temperature'' p =
        (if p \<in> set pre then map_option (\<lambda>v. of_int v / 1000) (sensor_reading fs p)
         else instance_value r ''cpu.temperature'' p)"
    using rd rs unfolding cache [symmetric] res scan
    by (simp add: instance_value_accesses_update)
  ultimately show ?thesis by blast
qed

theorem CPUTemperatureSampler_reading_phase_witness:
  "snd (CPUTemperatureSampler_sample
      \<lparr>files = [''/s/temp1_input'' \<mapsto> ''45000\<newline>'', ''/s/temp2_input'' \<mapsto> ''0\<newline>'',
                ''/s/temp3_input'' \<mapsto> ''50500\<newline>''], dirs = Map.empty\<rparr>
      [''/s/temp1_input'', ''/s/temp3_input'']
      \<lparr>samples = Map.empty, defaulting = True, accesses = []\<rparr>) = None \<and>
   instance_value (snd (fst (CPUTemperatureSampler_sample
      \<lparr>files = [''/s/temp1_input'' \<mapsto> ''45000\<newline>'', ''/s/temp2_input'' \<mapsto> ''0\<newline>'',
                ''/s/temp3_input'' \<mapsto> ''50500\<newline>''], dirs = Map.empty\<rparr>
      [''/s/temp1_input'', ''/s/temp3_input'']
      \<lparr>samples = Map.empty, defaulting = True, accesses = []\<rparr>)))
     ''cpu.temperature'' ''/s/temp3_input'' = Some (101 / 2) \<and>
   instance_value (snd (fst (CPUTemperatureSampler_sample
      \<lparr>files = [''/s/temp1_input'' \<mapsto> ''45000\<newline>'', ''/s/temp2_input'' \<mapsto> ''0\<newline>'',
                ''/s/temp3_input'' \<mapsto> ''50500\<newline>''], dirs = Map.empty\<rparr>
      [''/s/temp1_input'', ''/s/temp2_input'', ''/s/temp3_input'']
      \<lparr>samples = Map.empty, defaulting = True, accesses = []\<rparr>)))
     ''cpu.temperature'' ''/s/temp1_input'' = Some 45 \<and>
   instance_value (snd (fst (CPUTemperatureSampler_sample
      \<lparr>files = [''/s/temp1_input'' \<mapsto> ''45000\<newline>'', ''/s/temp2_input'' \<mapsto> ''0\<newline>'',
                ''/s/temp3_input'' \<mapsto> ''50500\<newline>''], dirs = Map.empty\<rparr>
      [''/s/temp1_input'', ''/s/temp2_input'', ''/s/temp3_input'']
      \<lparr>samples = Map.empty, defaulting = True, accesses = []\<rparr>)))
     ''cpu.temperature'' ''/s/temp3_input'' = None"
proof -
  let ?fs = "\<lparr>files = [''/s/temp1_input'' \<mapsto> ''45000\<newline>'', ''/s/temp2_input'' \<mapsto> ''0\<newline>'',
                ''/s/temp3_input'' \<mapsto> ''50500\<newline>''], dirs = Map.empty\<rparr>"
  let ?r = "\<lparr>samples = Map.empty, defaulting = True, accesses = []\<rparr>"
  have r1: "sensor_reading ?fs ''/s/temp1_input'' = Some 45000"
    by (simp add: sensor_reading_def text_defs)
  have r3: "sensor_reading ?fs ''/s/temp3_input'' = Some 50500"
    by (simp add: sensor_reading_def text_defs)
  have z: "sensor_reading ?fs ''/s/temp2_input'' = Some 0"
    by (simp add: sensor_reading_def text_defs)
  have a: "accepts_instances ?r ''cpu.temperature''"
    by (simp add: accepts_instances_def)
  have i: "instance_value ?r ''cpu.temperature'' p = None" for p
    by (simp add: instance_value_def)
  have c: "fst (fst (CPUTemperatureSampler_sample ?fs (p # ps) ?r)) = p # ps" for p ps
    by (simp add: CPUTemperatureSampler_sample_def split: prod.splits)
  have all: "\<forall>p\<in>set [''/s/temp1_input'', ''/s/temp3_input''].
      \<exists>v. sensor_reading ?fs p = Some v \<and> v \<noteq> 0"
    using r1 r3 by simp
  have none: "\<forall>z\<in>set (take 1 []). sensor_reading ?fs z = Some 0"
    by simp
  have c1: "fst (fst (CPUTemperatureSampler_sample ?fs [''/s/temp1_input'', ''/s/temp3_input''] ?r)) =
      [''/s/temp1_input'', ''/s/temp3_input''] @ []"
    using c by simp
  have pre: "\<forall>p\<in>set [''/s/temp1_input'']. \<exists>v. sensor_reading ?fs p = Some v \<and> v \<noteq> 0"
    using r1 by simp
  have zero: "\<forall>z\<in>set (take 1 [''/s/temp2_input'', ''/s/temp3_input'']).
      sensor_reading ?fs z = Some 0"
    using z by simp
  have c2: "fst (fst (CPUTemperatureSampler_sample ?fs
        [''/s/temp1_input'', ''/s/temp2_input'', ''/s/temp3_input''] ?r)) =
      [''/s/temp1_input''] @ [''/s/temp2_input'', ''/s/temp3_input'']"
    using c by simp
  show ?thesis
    using CPUTemperatureSampler_reading_phase [OF refl c1 all none a]
      CPUTemperatureSampler_reading_phase [OF refl c2 pre zero a] r1 r3
    by (simp add: i)
qed

lemma read_sensors_accesses:
  "\<exists>n. accesses (fst (read_sensors fs sensors r)) = accesses r @ map Open (take n sensors)"
proof (induction sensors arbitrary: r)
  case Nil
  then show ?case by simp
next
  case (Cons p rest)
  let ?r1 = "logged (Open p) r"
  have one: "accesses ?r1 = accesses r @ map Open (take 1 (p # rest))"
    by (simp add: accesses_logged)
  show ?case
  proof (cases "\<exists>v r2. sensor_reading fs p = Some v \<and> v \<noteq> 0 \<and>
      set_instance ''cpu.temperature'' p (of_int v / 1000) ?r1 = (r2, None)")
    case True
    then obtain v r2 where v: "sensor_reading fs p = Some v" "v \<noteq> 0"
      and s: "set_instance ''cpu.temperature'' p (of_int v / 1000) ?r1 = (r2, None)"
      by blast
    have r2: "accesses r2 = accesses r @ [Open p]"
      using set_instance_accesses [of "''cpu.temperature''" p "of_int v / 1000" ?r1] s
      by (simp add: accesses_logged)
    obtain n where n: "accesses (fst (read_sensors fs rest r2)) = accesses r2 @ map Open (take n rest)"
      using Cons.IH by blast
    have "read_sensors fs (p # rest) r = read_sensors fs rest r2"
      using v s by (auto simp add: sensor_reading_def split: option.splits)
    then have "accesses (fst (read_sensors fs (p # rest) r)) =
        accesses r @ map Open (take (Suc n) (p # rest))"
      using n r2 by simp
    then show ?thesis by blast
  next
    case False
    have "accesses (fst (read_sensors fs (p # rest) r)) = accesses ?r1"
    proof (cases "sensor_reading fs p")
      case None
      then show ?thesis
        by (auto simp add: sensor_reading_def split: option.splits)
    next
      case (Some v)
      obtain r2 e where s: "set_instance ''cpu.temperature'' p (of_int v / 1000) ?r1 = (r2, e)"
        by (cases "set_instance ''cpu.temperature'' p (of_int v / 1000) ?r1")
      have r2: "accesses r2 = accesses ?r1"
        using set_instance_accesses [of "''cpu.temperature''" p "of_int v / 1000" ?r1] s by simp
      have e: "v \<noteq> 0 \<Longrightarrow> e \<noteq> None"
        using False Some s by auto
      show ?thesis
        using Some s r2 e
        by (cases "v = 0") (auto simp add: sensor_reading_def Let_def split: option.splits)
    qed
    then show ?thesis using one by metis
  qed
qed

lemma sample_with_cache:
  assumes "sensors \<noteq> []"
  shows "fst (fst (CPUTemperatureSampler_sample fs sensors r)) = sensors \<and>
     (\<exists>n. accesses (snd (fst (CPUTemperatureSampler_sample fs sensors r))) =
        accesses r @ map Open (take n sensors))"
proof -
  obtain r2 e where rs: "read_sensors fs sensors r = (r2, e)"
    by (cases "read_sensors fs sensors r")
  have "CPUTemperatureSampler_sample fs sensors r = ((sensors, r2), e)"
    using assms rs by (simp add: CPUTemperatureSampler_sample_def)
  then show ?thesis
    using read_sensors_accesses [of fs sensors r] rs by simp
qed

lemma sample_from_empty_cache:
  "\<exists>scan. accesses (snd (fst (CPUTemperatureSampler_sample fs [] r))) =
     accesses r @ Open ''/sys/class/hwmon/hwmon0/name'' # scan"
proof -
  obtain c r' e where d: "discover_from fs 0 ([], r) = ((c, r'), e)"
    by (cases "discover_from fs 0 ([], r)") auto
  obtain xs where r': "r' = r\<lparr>accesses := accesses r @ Open (hwmon_file 0 ''name'') # xs\<rparr>"
    and e: "e = None"
    using discover_from_run [of fs 0 "[]" r] d by auto
  obtain r2 e2 where rs: "read_sensors fs c r' = (r2, e2)"
    by (cases "read_sensors fs c r'")
  obtain n where n: "accesses r2 = accesses r' @ map Open (take n c)"
    using read_sensors_accesses [of fs c r'] rs by auto
  have name: "hwmon_file 0 ''name'' = ''/sys/class/hwmon/hwmon0/name''"
    by (simp add: hwmon_file_def str_nat.simps)
  have "CPUTemperatureSampler_sample fs [] r = ((c, r2), e2)"
    using d e rs by (simp add: CPUTemperatureSampler_sample_def)
  then have "accesses (snd (fst (CPUTemperatureSampler_sample fs [] r))) =
      accesses r @ Open ''/sys/class/hwmon/hwmon0/name'' # (xs @ map Open (take n c))"
    using n r' name by simp
  then show ?thesis by blast
qed

text \<open>
  C6 (as the code has it). Discovery runs in a pass exactly when the cache is empty at its
  start. In every sequence of passes, a pass that starts from an empty cache scans: its
  first file system access opens \<open>hwmon0/name\<close>. A pass that starts from a cache that is
  not empty leaves the cache as it is, and its file system accesses are opens of cached
  sensor paths, in order. Each pass starts from the cache that the pass before left, the
  first from \<open>sensors\<close>; so once a pass leaves the cache not empty, no later pass scans.
\<close>

theorem sample_passes_discovery:
  "list_all2
     (\<lambda>(fs, r) (start, res).
        if start = []
        then \<exists>scan. accesses (snd (fst res)) =
               accesses r @ Open ''/sys/class/hwmon/hwmon0/name'' # scan
        else fst (fst res) = start \<and>
             (\<exists>n. accesses (snd (fst res)) = accesses r @ map Open (take n start)))
     passes (sample_passes passes sensors) \<and>
   map fst (sample_passes passes sensors) =
     take (length passes)
       (sensors # map (\<lambda>(start, res). fst (fst res)) (sample_passes passes sensors))"
proof (induction passes arbitrary: sensors)
  case Nil
  then show ?case by simp
next
  case (Cons pass passes)
  obtain fs r where pass: "pass = (fs, r)" by (cases pass)
  let ?res = "CPUTemperatureSampler_sample fs sensors r"
  have one: "if sensors = []
      then \<exists>scan. accesses (snd (fst ?res)) =
             accesses r @ Open ''/sys/class/hwmon/hwmon0/name'' # scan
      else fst (fst ?res) = sensors \<and>
           (\<exists>n. accesses (snd (fst ?res)) = accesses r @ map Open (take n sensors))"
    using sample_from_empty_cache [of fs r] sample_with_cache [of sensors fs r]
    by (cases "sensors = []") simp_all
  show ?case
    unfolding pass using one Cons.IH [of "fst (fst ?res)"]
    by (simp add: Let_def)
qed

theorem sample_passes_discovery_witness:
  "list_all2
     (\<lambda>(fs, r) (start, res).
        if start = []
        then \<exists>scan. accesses (snd (fst res)) =
               accesses r @ Open ''/sys/class/hwmon/hwmon0/name'' # scan
        else fst (fst res) = start \<and>
             (\<exists>n. accesses (snd (fst res)) = accesses r @ map Open (take n start)))
     [(\<lparr>files = [''/sys/class/hwmon/hwmon0/name'' \<mapsto> ''coretemp\<newline>'',
                 ''/sys/class/hwmon/hwmon0/temp1_input'' \<mapsto> ''52000\<newline>'',
                 ''/sys/class/hwmon/hwmon0/temp1_label'' \<mapsto> ''Core 0\<newline>''], dirs = Map.empty\<rparr>,
       \<lparr>samples = Map.empty, defaulting = True, accesses = []\<rparr>),
      (\<lparr>files = [''/sys/class/hwmon/hwmon0/name'' \<mapsto> ''coretemp\<newline>'',
                 ''/sys/class/hwmon/hwmon0/temp1_input'' \<mapsto> ''53000\<newline>'',
                 ''/sys/class/hwmon/hwmon0/temp1_label'' \<mapsto> ''Core 0\<newline>''], dirs = Map.empty\<rparr>,
       \<lparr>samples = Map.empty, defaulting = True, accesses = []\<rparr>),
      (\<lparr>files = [''/sys/class/hwmon/hwmon0/name'' \<mapsto> ''coretemp\<newline>'',
                 ''/sys/class/hwmon/hwmon0/temp1_input'' \<mapsto> ''54000\<newline>'',
                 ''/sys/class/hwmon/hwmon0/temp1_label'' \<mapsto> ''Core 0\<newline>''], dirs = Map.empty\<rparr>,
       \<lparr>samples = Map.empty, defaulting = True, accesses = []\<rparr>)]
     (sample_passes
       [(\<lparr>files = [''/sys/class/hwmon/hwmon0/name'' \<mapsto> ''coretemp\<newline>'',
                 ''/sys/class/hwmon/hwmon0/temp1_input'' \<mapsto> ''52000\<newline>'',
                 ''/sys/class/hwmon/hwmon0/temp1_label'' \<mapsto> ''Core 0\<newline>''], dirs = Map.empty\<rparr>,
         \<lparr>samples = Map.empty, defaulting = True, accesses = []\<rparr>),
        (\<lparr>files = [''/sys/class/hwmon/hwmon0/name'' \<mapsto> ''coretemp\<newline>'',
                 ''/sys/class/hwmon/hwmon0/temp1_input'' \<mapsto> ''53000\<newline>'',
                 ''/sys/class/hwmon/hwmon0/temp1_label'' \<mapsto> ''Core 0\<newline>''], dirs = Map.empty\<rparr>,
         \<lparr>samples = Map.empty, defaulting = True, accesses = []\<rparr>),
        (\<lparr>files = [''/sys/class/hwmon/hwmon0/name'' \<mapsto> ''coretemp\<newline>'',
                 ''/sys/class/hwmon/hwmon0/temp1_input'' \<mapsto> ''54000\<newline>'',
                 ''/sys/class/hwmon/hwmon0/temp1_label'' \<mapsto> ''Core 0\<newline>''], dirs = Map.empty\<rparr>,
         \<lparr>samples = Map.empty, defaulting = True, accesses = []\<rparr>)]
       [])"
  using sample_passes_discovery by (rule conjunct1)

text \<open>
  The three passes of that sequence, evaluated: the first scans, the later two only open
  the cached sensor.
\<close>

lemma sample_passes_example:
  "map (\<lambda>(start, res). (start, fst (fst res), accesses (snd (fst res))))
     (sample_passes
       [(\<lparr>files = [''/sys/class/hwmon/hwmon0/name'' \<mapsto> ''coretemp\<newline>'',
                 ''/sys/class/hwmon/hwmon0/temp1_input'' \<mapsto> ''52000\<newline>'',
                 ''/sys/class/hwmon/hwmon0/temp1_label'' \<mapsto> ''Core 0\<newline>''], dirs = Map.empty\<rparr>,
         \<lparr>samples = Map.empty, defaulting = True, accesses = []\<rparr>),
        (\<lparr>files = [''/sys/class/hwmon/hwmon0/name'' \<mapsto> ''coretemp\<newline>'',
                 ''/sys/class/hwmon/hwmon0/temp1_input'' \<mapsto> ''53000\<newline>'',
                 ''/sys/class/hwmon/hwmon0/temp1_label'' \<mapsto> ''Core 0\<newline>''], dirs = Map.empty\<rparr>,
         \<lparr>samples = Map.empty, defaulting = True, accesses = []\<rparr>),
        (\<lparr>files = [''/sys/class/hwmon/hwmon0/name'' \<mapsto> ''coretemp\<newline>'',
                 ''/sys/class/hwmon/hwmon0/temp1_input'' \<mapsto> ''54000\<newline>'',
                 ''/sys/class/hwmon/hwmon0/temp1_label'' \<mapsto> ''Core 0\<newline>''], dirs = Map.empty\<rparr>,
         \<lparr>samples = Map.empty, defaulting = True, accesses = []\<rparr>)]
       []) =
   [([], [''/sys/class/hwmon/hwmon0/temp1_input''],
     [Open ''/sys/class/hwmon/hwmon0/name'', Exists ''/sys/class/hwmon/hwmon0/temp1_input'',
      Open ''/sys/class/hwmon/hwmon0/temp1_label'', Exists ''/sys/class/hwmon/hwmon0/temp2_input'',
      Open ''/sys/class/hwmon/hwmon1/name'', Open ''/sys/class/hwmon/hwmon0/temp1_input'']),
    ([''/sys/class/hwmon/hwmon0/temp1_input''], [''/sys/class/hwmon/hwmon0/temp1_input''],
     [Open ''/sys/class/hwmon/hwmon0/temp1_input'']),
    ([''/sys/class/hwmon/hwmon0/temp1_input''], [''/sys/class/hwmon/hwmon0/temp1_input''],
     [Open ''/sys/class/hwmon/hwmon0/temp1_input''])]"
  by (simp add: CPUTemperatureSampler_sample_def hwmon_eval text_defs logged_def Let_def
      set_instance_def)

text \<open>
  The claim as it was stated lets discovery run at most once. On a host whose hwmon devices
  hold no CPU sensor the cache stays empty, and the second pass scans again: it opens
  \<open>hwmon0/name\<close> and \<open>hwmon1/name\<close> as the first did.
\<close>

theorem sample_passes_rescan_counterexample:
  "sample_passes
     [(\<lparr>files = [''/sys/class/hwmon/hwmon0/name'' \<mapsto> ''acpitz\<newline>''], dirs = Map.empty\<rparr>,
       \<lparr>samples = Map.empty, defaulting = True, accesses = []\<rparr>),
      (\<lparr>files = [''/sys/class/hwmon/hwmon0/name'' \<mapsto> ''acpitz\<newline>''], dirs = Map.empty\<rparr>,
       \<lparr>samples = Map.empty, defaulting = True, accesses = []\<rparr>)] [] =
   [([], ([], \<lparr>samples = Map.empty, defaulting = True,
          accesses = [Open ''/sys/class/hwmon/hwmon0/name'', Open ''/sys/class/hwmon/hwmon1/name'']\<rparr>), None),
    ([], ([], \<lparr>samples = Map.empty, defaulting = True,
          accesses = [Open ''/sys/class/hwmon/hwmon0/name'', Open ''/sys/class/hwmon/hwmon1/name'']\<rparr>), None)]"
  by (simp add: CPUTemperatureSampler_sample_def hwmon_eval text_defs logged_def Let_def)

text \<open>
  A first pass on a host with an AMD sensor device: discovery skips \<open>Tctl\<close>, caches
  \<open>temp2_input\<close> and the reading phase writes 48.5 degrees under that path.
\<close>

lemma discovery_example:
  "CPUTemperatureSampler_sample
     \<lparr>files = [''/sys/class/hwmon/hwmon0/name'' \<mapsto> ''acpitz\<newline>'',
               ''/sys/class/hwmon/hwmon1/name'' \<mapsto> ''k10temp\<newline>'',
               ''/sys/class/hwmon/hwmon1/temp1_input'' \<mapsto> ''52000\<newline>'',
               ''/sys/class/hwmon/hwmon1/temp1_label'' \<mapsto> ''Tctl\<newline>'',
               ''/sys/class/hwmon/hwmon1/temp2_input'' \<mapsto> ''48500\<newline>'',
               ''/sys/class/hwmon/hwmon1/temp2_label'' \<mapsto> ''Tdie\<newline>''], dirs = Map.empty\<rparr>
     [] \<lparr>samples = Map.empty, defaulting = True, accesses = []\<rparr> =
   (([''/sys/class/hwmon/hwmon1/temp2_input''],
     \<lparr>samples = [''cpu.temperature'' \<mapsto> Inst [''/sys/class/hwmon/hwmon1/temp2_input'' \<mapsto> 97 / 2]],
      defaulting = True,
      accesses = [Open ''/sys/class/hwmon/hwmon0/name'', Open ''/sys/class/hwmon/hwmon1/name'',
        Exists ''/sys/class/hwmon/hwmon1/temp1_input'', Open ''/sys/class/hwmon/hwmon1/temp1_label'',
        Exists ''/sys/class/hwmon/hwmon1/temp2_input'', Open ''/sys/class/hwmon/hwmon1/temp2_label'',
        Exists ''/sys/class/hwmon/hwmon1/temp3_input'', Open ''/sys/class/hwmon/hwmon2/name'',
        Open ''/sys/class/hwmon/hwmon1/temp2_input'']\<rparr>), None)"
  by (simp add: CPUTemperatureSampler_sample_def hwmon_eval text_defs logged_def Let_def set_instance_def)

end
